theory Spec2Isabelle
  imports Complex_Main "HOL-Library.Sublist" "HOL-Library.AList"
begin

section \<open>HackScript v2: tokenizer, parser, type checker and evaluator\<close>

text \<open>
  A shallow embedding of \<^verbatim>\<open>HackScriptLanguageV2.ts\<close> (type system, tokenizer, parser) and of
  \<^verbatim>\<open>HackScriptInterpreterV2\<close> (type checker, evaluator, \<^verbatim>\<open>execute\<close>).

  Conventions.
  \<^item> A source text is a \<^typ>\<open>string\<close>; every character stands for the UTF-16 code unit of
    the same code (texts within Latin-1).
  \<^item> A JavaScript exception \<^verbatim>\<open>throw new Error(msg)\<close> is the outcome \<open>Thrown msg s\<close>, where
    \<open>s\<close> is the mutable state at the throw (the parser's position, the interpreter's
    state): a \<^verbatim>\<open>catch\<close> sees every mutation made before the throw.
  \<^item> Loops and recursive descents that the source does not bound take a fuel argument;
    \<open>OutOfFuel\<close> is the outcome of a run that needs more fuel. A run that is \<open>OutOfFuel\<close>
    for every fuel does not return by itself in the source (it loops forever or exhausts
    the host's call stack).
  \<^item> \<open>Unmodelled\<close> is the outcome of a run that reaches behaviour of the JavaScript host
    which this development does not describe (rounding floating-point arithmetic,
    implicit conversions between unlike operand types, prototype members,
    \<^verbatim>\<open>JSON.stringify\<close>, \<^verbatim>\<open>parseInt\<close> and \<^verbatim>\<open>parseFloat\<close> called by a script).
\<close>

datatype ('a, 's) outcome = Done 'a 's | Thrown string 's | OutOfFuel | Unmodelled

definition bind :: "('a, 's) outcome \<Rightarrow> ('a \<Rightarrow> 's \<Rightarrow> ('b, 's) outcome) \<Rightarrow> ('b, 's) outcome" where
  "bind m f = (case m of Done a s \<Rightarrow> f a s | Thrown e s \<Rightarrow> Thrown e s
     | OutOfFuel \<Rightarrow> OutOfFuel | Unmodelled \<Rightarrow> Unmodelled)"

definition returned :: "('a, 's) outcome \<Rightarrow> 'a option" where
  "returned m = (case m of Done a s \<Rightarrow> Some a | Thrown e s \<Rightarrow> None
     | OutOfFuel \<Rightarrow> None | Unmodelled \<Rightarrow> None)"

definition liftHost :: "'a option \<Rightarrow> 's \<Rightarrow> ('a, 's) outcome" where
  "liftHost r s = (case r of Some a \<Rightarrow> Done a s | None \<Rightarrow> Unmodelled)"

subsection \<open>Numbers of the host\<close>

text \<open>
  A JavaScript number is an IEEE 754 double. The model holds the doubles that are
  \<open>a / 2 ^ k\<close> with \<open>\<bar>a\<bar> \<le> 2 ^ 53\<close> and \<open>k \<le> 64\<close> as rationals: every such rational is a
  double, and an operation whose exact result is one of them returns it, since IEEE
  arithmetic rounds correctly. Every other result is left to the host.
\<close>

definition js_exact :: "rat \<Rightarrow> bool" where
  "js_exact q = (case quotient_of q of (a, b) \<Rightarrow> \<bar>a\<bar> \<le> 2 ^ 53 \<and> b dvd 2 ^ 64)"

definition isInteger :: "rat \<Rightarrow> bool" where
  "isInteger q = (snd (quotient_of q) = 1)"

definition js_trunc :: "rat \<Rightarrow> int" where
  "js_trunc q = (if 0 \<le> q then \<lfloor>q\<rfloor> else \<lceil>q\<rceil>)"

subsection \<open>The tokenizer\<close>

text \<open>
  \<^verbatim>\<open>tokenize\<close> matches the regular expression
  \<^verbatim>\<open>(\s+|\/\/.*|\/\*[\s\S]*?\*\/|==|!=|<=|>=|&&|\|\||::|->|=|<|>|\+|-|\*|\/|%|\(|\)|{|}|\[|\]|;|,|:|"|'|\w+|\d+\.?\d*|.)\<close>
  globally and then drops the matches that are all whitespace or start with \<^verbatim>\<open>//\<close>.
  At a position the first alternative that matches wins.
\<close>

definition isLineTerminator :: "char \<Rightarrow> bool" where
  "isLineTerminator c = (c = CHR 0x0A \<or> c = CHR 0x0D)"

definition isSpace :: "char \<Rightarrow> bool" where
  "isSpace c = (c \<in> set [CHR 0x09, CHR 0x0A, CHR 0x0B, CHR 0x0C, CHR 0x0D, CHR 0x20, CHR 0xA0])"

definition isDigit :: "char \<Rightarrow> bool" where
  "isDigit c = (let n = (of_char c :: nat) in 48 \<le> n \<and> n \<le> 57)"

definition isAlpha :: "char \<Rightarrow> bool" where
  "isAlpha c = (let n = (of_char c :: nat) in (65 \<le> n \<and> n \<le> 90) \<or> (97 \<le> n \<and> n \<le> 122))"

definition isWordChar :: "char \<Rightarrow> bool" where
  "isWordChar c = (isDigit c \<or> isAlpha c \<or> c = CHR ''_'')"

definition operatorAlternatives :: "string list" where
  "operatorAlternatives = [''=='', ''!='', ''<='', ''>='', ''&&'', ''||'', ''::'', ''->'',
     ''='', ''<'', ''>'', ''+'', ''-'', ''*'', ''/'', ''%'', ''('', '')'', ''{'', ''}'',
     ''['', '']'', '';'', '','', '':'', [CHR 0x22], [CHR 0x27]]"

text \<open>The lazy body of a block comment with its closing \<^verbatim>\<open>*/\<close>: the length up to the
  first \<^verbatim>\<open>*/\<close>, or nothing when the comment is not closed.\<close>

fun blockCommentBody :: "string \<Rightarrow> nat option" where
  "blockCommentBody (c # d # cs) =
     (if c = CHR ''*'' \<and> d = CHR ''/'' then Some 2
      else map_option Suc (blockCommentBody (d # cs)))"
| "blockCommentBody cs = None"

text \<open>The length of the match at the head of the text, alternative by alternative.\<close>

definition matchToken :: "string \<Rightarrow> nat option" where
  "matchToken s =
     (case s of [] \<Rightarrow> None
      | c # cs \<Rightarrow>
        if isSpace c then Some (length (takeWhile isSpace s))
        else if prefix ''//'' s
          then Some (2 + length (takeWhile (\<lambda>x. \<not> isLineTerminator x) (drop 2 s)))
        else if prefix ''/*'' s \<and> blockCommentBody (drop 2 s) \<noteq> None
          then Some (2 + the (blockCommentBody (drop 2 s)))
        else (case find (\<lambda>p. prefix p s) operatorAlternatives of
            Some p \<Rightarrow> Some (length p)
          | None \<Rightarrow>
              if isWordChar c then Some (length (takeWhile isWordChar s))
              else if isDigit c then
                (let n = length (takeWhile isDigit s) in
                 Some (n + (case drop n s of [] \<Rightarrow> 0
                    | x # xs \<Rightarrow> if x = CHR ''.'' then 1 + length (takeWhile isDigit xs) else 0)))
              else if isLineTerminator c then None
              else Some 1))"

lemma operatorAlternatives_nonempty: "p \<in> set operatorAlternatives \<Longrightarrow> p \<noteq> []"
  by (auto simp: operatorAlternatives_def)

lemma matchToken_pos:
  assumes "matchToken s = Some n"
  shows "0 < n"
proof (cases s)
  case Nil
  with assms show ?thesis by (simp add: matchToken_def)
next
  case (Cons c cs)
  show ?thesis
  proof (cases "find (\<lambda>p. prefix p s) operatorAlternatives")
    case None
    with assms Cons show ?thesis
      by (auto simp: matchToken_def Let_def split: if_splits)
  next
    case (Some p)
    then have "p \<in> set operatorAlternatives"
      by (auto simp: find_Some_iff)
    then have "p \<noteq> []"
      by (rule operatorAlternatives_nonempty)
    with assms Cons Some show ?thesis
      by (auto simp: matchToken_def split: if_splits)
  qed
qed

text \<open>\<^verbatim>\<open>code.match(tokenRegex)\<close>: all matches from left to right; a position where no
  alternative matches is skipped.\<close>

function matchAll :: "string \<Rightarrow> string list" where
  "matchAll s =
     (if s = [] then []
      else (case matchToken s of
          None \<Rightarrow> matchAll (tl s)
        | Some n \<Rightarrow> take n s # matchAll (drop n s)))"
  by pat_completeness auto
termination
  by (relation "measure length") (auto dest: matchToken_pos)

definition isWhitespaceToken :: "string \<Rightarrow> bool" where
  "isWhitespaceToken t = (t \<noteq> [] \<and> list_all isSpace t)"

definition tokenize :: "string \<Rightarrow> string list" where
  "tokenize code = filter (\<lambda>t. \<not> isWhitespaceToken t \<and> \<not> prefix ''//'' t) (matchAll code)"

subsection \<open>Types of the language\<close>

datatype TypeInfo = TypeInfo (name: string) (primitive: bool) (nullable: bool)
  (genericParams: "TypeInfo list option")

record CompileError =
  line :: nat
  column :: nat
  message :: string
  severity :: string

definition primitiveTypes :: "(string \<times> TypeInfo) list" where
  "primitiveTypes =
     [(''int'', TypeInfo ''int'' True False None),
      (''float'', TypeInfo ''float'' True False None),
      (''string'', TypeInfo ''string'' True False None),
      (''bool'', TypeInfo ''bool'' True False None),
      (''char'', TypeInfo ''char'' True False None),
      (''void'', TypeInfo ''void'' True False None)]"

definition getPrimitiveType :: "string \<Rightarrow> TypeInfo option" where
  "getPrimitiveType n = map_of primitiveTypes n"

definition isAssignable :: "TypeInfo \<Rightarrow> TypeInfo \<Rightarrow> bool" where
  "isAssignable from to =
     (if name from = name to then True
      else if name from = ''int'' \<and> name to = ''float'' then True
      else if nullable to \<and> \<not> nullable from then True
      else False)"

definition createArrayType :: "TypeInfo \<Rightarrow> TypeInfo" where
  "createArrayType elementType =
     TypeInfo (''Array<'' @ name elementType @ ''>'') False False (Some [elementType])"

subsection \<open>The syntax tree\<close>

text \<open>The parser builds untyped objects tagged by \<^verbatim>\<open>type\<close>; the datatypes below have one
  constructor for each tag, with the fields in the order of the object literals.\<close>

datatype expr =
    NumberLiteral rat string
  | StringLiteral string
  | BooleanLiteral bool
  | NullLiteral
  | ArrayLiteral "expr list"
  | ObjectLiteral "(string \<times> expr) list"
  | Identifier string
  | BinaryExpression string expr expr
  | UnaryExpression string expr
  | AssignmentExpression expr expr
  | FunctionCall expr "expr list"
  | ArrayAccess expr expr
  | PropertyAccess expr string

datatype param = Param (paramName: string) (paramType: TypeInfo) (defaultValue: "expr option")

datatype stmt =
    VariableDeclaration string string TypeInfo "expr option" bool
  | FunctionDeclaration string "param list" TypeInfo stmt
  | BlockStatement "stmt list"
  | IfStatement expr stmt "stmt option"
  | ForStatement stmt expr expr stmt
  | WhileStatement expr stmt
  | ReturnStatement "expr option"
  | ExpressionStatement expr

datatype program = Program "stmt list"

subsection \<open>The parser\<close>

text \<open>
  The parser's mutable fields are the token list, which \<^verbatim>\<open>parse\<close> sets once, and the
  position, which is the state threaded through the outcomes. The functions that call
  \<^verbatim>\<open>parseExpression\<close> or \<^verbatim>\<open>parseStatement\<close> recursively take that function as their first
  argument (\<open>pe\<close>, \<open>ps\<close>); \<open>parseExpression\<close> and \<open>parseStatement\<close> close the recursion
  with one unit of fuel for each descent.
\<close>

type_synonym 'a parser = "string list \<Rightarrow> nat \<Rightarrow> ('a, nat) outcome"

definition currentToken :: "string list \<Rightarrow> nat \<Rightarrow> string" where
  "currentToken ts p = (if p < length ts then ts ! p else [])"

definition consume :: "string parser" where
  "consume ts p = Done (currentToken ts p) (Suc p)"

definition expect :: "string \<Rightarrow> unit parser" where
  "expect expected ts p =
     bind (consume ts p) (\<lambda>token p1.
       if token \<noteq> expected
       then Thrown (''Expected '' @ [CHR 0x27] @ expected @ [CHR 0x27] @ '', got '' @
                    [CHR 0x27] @ token @ [CHR 0x27]) p1
       else Done () p1)"

fun joinStrings :: "string \<Rightarrow> string list \<Rightarrow> string" where
  "joinStrings sep [] = []"
| "joinStrings sep [x] = x"
| "joinStrings sep (x # y # xs) = x @ sep @ joinStrings sep (y # xs)"

fun parseType :: "nat \<Rightarrow> TypeInfo parser"
and parseType_loop :: "nat \<Rightarrow> TypeInfo list \<Rightarrow> TypeInfo list parser" where
  "parseType 0 ts p = OutOfFuel"
| "parseType (Suc n) ts p =
     bind (consume ts p) (\<lambda>baseType p1.
       if currentToken ts p1 = ''<'' then
         bind (consume ts p1) (\<lambda>_ p2.
         bind (parseType_loop n [] ts p2) (\<lambda>gps p3.
         bind (expect ''>'' ts p3) (\<lambda>_ p4.
           Done (TypeInfo (baseType @ ''<'' @ joinStrings '', '' (map name gps) @ ''>'')
                   False False (Some gps)) p4)))
       else
         (let isNullable = (currentToken ts p1 = ''?'');
              p2 = (if isNullable then Suc p1 else p1);
              baseType' = (if isNullable then baseType @ ''?'' else baseType)
          in Done (TypeInfo baseType'
                     (getPrimitiveType (remove1 CHR ''?'' baseType') \<noteq> None) isNullable None) p2))"
| "parseType_loop 0 gps ts p = OutOfFuel"
| "parseType_loop (Suc n) gps ts p =
     bind (parseType n ts p) (\<lambda>t p1.
       let p2 = (if currentToken ts p1 = '','' then Suc p1 else p1) in
       if currentToken ts p2 \<noteq> ''>'' then parseType_loop n (gps @ [t]) ts p2
       else Done (gps @ [t]) p2)"

fun parseStringLiteral_loop :: "nat \<Rightarrow> string \<Rightarrow> string \<Rightarrow> string parser" where
  "parseStringLiteral_loop 0 quote v ts p = OutOfFuel"
| "parseStringLiteral_loop (Suc n) quote v ts p =
     (if currentToken ts p \<noteq> quote
      then bind (consume ts p) (\<lambda>t p1. parseStringLiteral_loop n quote (v @ t) ts p1)
      else Done v p)"

definition parseStringLiteral :: "nat \<Rightarrow> expr parser" where
  "parseStringLiteral n ts p =
     bind (consume ts p) (\<lambda>quote p1.
     bind (parseStringLiteral_loop n quote [] ts p1) (\<lambda>v p2.
     bind (expect quote ts p2) (\<lambda>_ p3. Done (StringLiteral v) p3)))"

text \<open>The two regular expressions of \<^verbatim>\<open>parsePrimaryExpression\<close>: \<^verbatim>\<open>/^\d+\.?\d*$/\<close> and
  \<^verbatim>\<open>/^[a-zA-Z_][a-zA-Z0-9_]*$/\<close>.\<close>

definition isNumberToken :: "string \<Rightarrow> bool" where
  "isNumberToken t =
     (case t of [] \<Rightarrow> False
      | c # cs \<Rightarrow> isDigit c \<and>
          (case dropWhile isDigit t of [] \<Rightarrow> True
           | d # ds \<Rightarrow> d = CHR ''.'' \<and> list_all isDigit ds))"

definition isIdentifierToken :: "string \<Rightarrow> bool" where
  "isIdentifierToken t =
     (case t of [] \<Rightarrow> False | c # cs \<Rightarrow> (isAlpha c \<or> c = CHR ''_'') \<and> list_all isWordChar cs)"

definition digitsValue :: "string \<Rightarrow> nat" where
  "digitsValue ds = foldl (\<lambda>acc c. 10 * acc + (of_char c - 48)) 0 ds"

text \<open>\<^verbatim>\<open>parseInt\<close> and \<^verbatim>\<open>parseFloat\<close> on a token of the form \<^verbatim>\<open>\d+\.?\d*\<close>: the decimal's
  value where it is a double, the host's rounding otherwise.\<close>

definition parseNumberLiteral :: "expr parser" where
  "parseNumberLiteral ts p =
     bind (consume ts p) (\<lambda>token p1.
       let ip = takeWhile isDigit token;
           fp = drop (Suc (length ip)) token;
           v = (if CHR ''.'' \<in> set token
                then of_nat (digitsValue ip) + of_nat (digitsValue fp) / 10 ^ length fp
                else of_nat (digitsValue ip));
           numberType = (if CHR ''.'' \<in> set token then ''float'' else ''int'')
       in if js_exact v then Done (NumberLiteral v numberType) p1 else Unmodelled)"

definition parseBooleanLiteral :: "expr parser" where
  "parseBooleanLiteral ts p = bind (consume ts p) (\<lambda>t p1. Done (BooleanLiteral (t = ''true'')) p1)"

definition parseIdentifier :: "expr parser" where
  "parseIdentifier ts p = bind (consume ts p) (\<lambda>t p1. Done (Identifier t) p1)"

fun parseObjectLiteral_loop ::
  "expr parser \<Rightarrow> nat \<Rightarrow> (string \<times> expr) list \<Rightarrow> (string \<times> expr) list parser" where
  "parseObjectLiteral_loop pe 0 properties ts p = OutOfFuel"
| "parseObjectLiteral_loop pe (Suc n) properties ts p =
     (if currentToken ts p \<noteq> ''}''
      then bind (consume ts p) (\<lambda>key p0.
           bind (expect '':'' ts p0) (\<lambda>_ p1.
           bind (pe ts p1) (\<lambda>v p2.
             parseObjectLiteral_loop pe n (properties @ [(key, v)]) ts
               (if currentToken ts p2 = '','' then Suc p2 else p2))))
      else Done properties p)"

definition parseObjectLiteral :: "expr parser \<Rightarrow> nat \<Rightarrow> expr parser" where
  "parseObjectLiteral pe n ts p =
     bind (consume ts p) (\<lambda>_ p0.
     bind (parseObjectLiteral_loop pe n [] ts p0) (\<lambda>properties p1.
     bind (expect ''}'' ts p1) (\<lambda>_ p2. Done (ObjectLiteral properties) p2)))"

fun parseArrayLiteral_loop :: "expr parser \<Rightarrow> nat \<Rightarrow> expr list \<Rightarrow> expr list parser" where
  "parseArrayLiteral_loop pe 0 elements ts p = OutOfFuel"
| "parseArrayLiteral_loop pe (Suc n) elements ts p =
     (if currentToken ts p \<noteq> '']''
      then bind (pe ts p) (\<lambda>e p1.
             parseArrayLiteral_loop pe n (elements @ [e]) ts
               (if currentToken ts p1 = '','' then Suc p1 else p1))
      else Done elements p)"

definition parseArrayLiteral :: "expr parser \<Rightarrow> nat \<Rightarrow> expr parser" where
  "parseArrayLiteral pe n ts p =
     bind (consume ts p) (\<lambda>_ p0.
     bind (parseArrayLiteral_loop pe n [] ts p0) (\<lambda>elements p1.
     bind (expect '']'' ts p1) (\<lambda>_ p2. Done (ArrayLiteral elements) p2)))"

definition parsePrimaryExpression :: "expr parser \<Rightarrow> nat \<Rightarrow> expr parser" where
  "parsePrimaryExpression pe n ts p =
     (let token = currentToken ts p in
      if token = ''('' then
        bind (consume ts p) (\<lambda>_ p0.
        bind (pe ts p0) (\<lambda>e p1.
        bind (expect '')'' ts p1) (\<lambda>_ p2. Done e p2)))
      else if token = ''['' then parseArrayLiteral pe n ts p
      else if token = ''{'' then parseObjectLiteral pe n ts p
      else if token = [CHR 0x22] \<or> token = [CHR 0x27] then parseStringLiteral n ts p
      else if isNumberToken token then parseNumberLiteral ts p
      else if token = ''true'' \<or> token = ''false'' then parseBooleanLiteral ts p
      else if token = ''null'' then bind (consume ts p) (\<lambda>_ p1. Done NullLiteral p1)
      else if isIdentifierToken token then parseIdentifier ts p
      else Thrown (''Unexpected token: '' @ token) p)"

fun parseArgumentList_loop :: "expr parser \<Rightarrow> nat \<Rightarrow> expr list \<Rightarrow> expr list parser" where
  "parseArgumentList_loop pe 0 args ts p = OutOfFuel"
| "parseArgumentList_loop pe (Suc n) args ts p =
     (if currentToken ts p \<noteq> '')''
      then bind (pe ts p) (\<lambda>arg p1.
             parseArgumentList_loop pe n (args @ [arg]) ts
               (if currentToken ts p1 = '','' then Suc p1 else p1))
      else Done args p)"

definition parseArgumentList :: "expr parser \<Rightarrow> nat \<Rightarrow> expr list parser" where
  "parseArgumentList pe n ts p = parseArgumentList_loop pe n [] ts p"

fun parsePostfixExpression_loop :: "expr parser \<Rightarrow> nat \<Rightarrow> expr \<Rightarrow> expr parser" where
  "parsePostfixExpression_loop pe 0 left ts p = OutOfFuel"
| "parsePostfixExpression_loop pe (Suc n) left ts p =
     (if currentToken ts p = ''[''
      then bind (consume ts p) (\<lambda>_ p0.
           bind (pe ts p0) (\<lambda>index p1.
           bind (expect '']'' ts p1) (\<lambda>_ p2.
             parsePostfixExpression_loop pe n (ArrayAccess left index) ts p2)))
      else if currentToken ts p = ''(''
      then bind (consume ts p) (\<lambda>_ p0.
           bind (parseArgumentList pe n ts p0) (\<lambda>args p1.
           bind (expect '')'' ts p1) (\<lambda>_ p2.
             parsePostfixExpression_loop pe n (FunctionCall left args) ts p2)))
      else if currentToken ts p = ''.''
      then bind (consume ts p) (\<lambda>_ p0.
           bind (consume ts p0) (\<lambda>property p1.
             parsePostfixExpression_loop pe n (PropertyAccess left property) ts p1))
      else Done left p)"

definition parsePostfixExpression :: "expr parser \<Rightarrow> nat \<Rightarrow> expr parser" where
  "parsePostfixExpression pe n ts p =
     bind (parsePrimaryExpression pe n ts p) (\<lambda>left p1.
       parsePostfixExpression_loop pe n left ts p1)"

fun parseUnaryExpression :: "expr parser \<Rightarrow> nat \<Rightarrow> expr parser" where
  "parseUnaryExpression pe 0 ts p = OutOfFuel"
| "parseUnaryExpression pe (Suc n) ts p =
     (if currentToken ts p \<in> set [''-'', ''!'', ''++'', ''--'']
      then bind (consume ts p) (\<lambda>operator p0.
           bind (parseUnaryExpression pe n ts p0) (\<lambda>operand p1.
             Done (UnaryExpression operator operand) p1))
      else parsePostfixExpression pe n ts p)"

text \<open>The six binary levels share one loop in the source, written out six times:
  \<^verbatim>\<open>while (ops.includes(currentToken())) { operator = consume(); right = operand(); left = {...} }\<close>.\<close>

fun parseBinary_loop :: "string list \<Rightarrow> expr parser \<Rightarrow> nat \<Rightarrow> expr \<Rightarrow> expr parser" where
  "parseBinary_loop ops operand 0 left ts p = OutOfFuel"
| "parseBinary_loop ops operand (Suc n) left ts p =
     (if currentToken ts p \<in> set ops
      then bind (consume ts p) (\<lambda>operator p0.
           bind (operand ts p0) (\<lambda>right p1.
             parseBinary_loop ops operand n (BinaryExpression operator left right) ts p1))
      else Done left p)"

definition parseMultiplicativeExpression :: "expr parser \<Rightarrow> nat \<Rightarrow> expr parser" where
  "parseMultiplicativeExpression pe n ts p =
     bind (parseUnaryExpression pe n ts p) (\<lambda>left p1.
       parseBinary_loop [''*'', ''/'', ''%''] (parseUnaryExpression pe n) n left ts p1)"

definition parseAdditiveExpression :: "expr parser \<Rightarrow> nat \<Rightarrow> expr parser" where
  "parseAdditiveExpression pe n ts p =
     bind (parseMultiplicativeExpression pe n ts p) (\<lambda>left p1.
       parseBinary_loop [''+'', ''-''] (parseMultiplicativeExpression pe n) n left ts p1)"

definition parseRelationalExpression :: "expr parser \<Rightarrow> nat \<Rightarrow> expr parser" where
  "parseRelationalExpression pe n ts p =
     bind (parseAdditiveExpression pe n ts p) (\<lambda>left p1.
       parseBinary_loop [''<'', ''>'', ''<='', ''>=''] (parseAdditiveExpression pe n) n left ts p1)"

definition parseEqualityExpression :: "expr parser \<Rightarrow> nat \<Rightarrow> expr parser" where
  "parseEqualityExpression pe n ts p =
     bind (parseRelationalExpression pe n ts p) (\<lambda>left p1.
       parseBinary_loop [''=='', ''!=''] (parseRelationalExpression pe n) n left ts p1)"

definition parseLogicalAndExpression :: "expr parser \<Rightarrow> nat \<Rightarrow> expr parser" where
  "parseLogicalAndExpression pe n ts p =
     bind (parseEqualityExpression pe n ts p) (\<lambda>left p1.
       parseBinary_loop [''&&''] (parseEqualityExpression pe n) n left ts p1)"

definition parseLogicalOrExpression :: "expr parser \<Rightarrow> nat \<Rightarrow> expr parser" where
  "parseLogicalOrExpression pe n ts p =
     bind (parseLogicalAndExpression pe n ts p) (\<lambda>left p1.
       parseBinary_loop [''||''] (parseLogicalAndExpression pe n) n left ts p1)"

fun parseAssignmentExpression :: "expr parser \<Rightarrow> nat \<Rightarrow> expr parser" where
  "parseAssignmentExpression pe 0 ts p = OutOfFuel"
| "parseAssignmentExpression pe (Suc n) ts p =
     bind (parseLogicalOrExpression pe n ts p) (\<lambda>left p1.
       if currentToken ts p1 = ''=''
       then bind (consume ts p1) (\<lambda>_ p2.
            bind (parseAssignmentExpression pe n ts p2) (\<lambda>right p3.
              Done (AssignmentExpression left right) p3))
       else Done left p1)"

fun parseExpression :: "nat \<Rightarrow> expr parser" where
  "parseExpression 0 ts p = OutOfFuel"
| "parseExpression (Suc n) ts p =
     parseAssignmentExpression (\<lambda>ts' p'. parseExpression n ts' p') n ts p"

definition parseVariableDeclaration :: "nat \<Rightarrow> stmt parser" where
  "parseVariableDeclaration n ts p =
     bind (consume ts p) (\<lambda>keyword p1.
     bind (consume ts p1) (\<lambda>varName p2.
     bind (expect '':'' ts p2) (\<lambda>_ p3.
     bind (parseType n ts p3) (\<lambda>ty p4.
     bind (if currentToken ts p4 = ''=''
           then bind (consume ts p4) (\<lambda>_ p5.
                bind (parseExpression n ts p5) (\<lambda>e p6. Done (Some e) p6))
           else Done None p4) (\<lambda>initializer p7.
     bind (expect '';'' ts p7) (\<lambda>_ p8.
       Done (VariableDeclaration keyword varName ty initializer (keyword = ''let'')) p8))))))"

fun parseParameterList_loop :: "nat \<Rightarrow> param list \<Rightarrow> param list parser" where
  "parseParameterList_loop 0 params ts p = OutOfFuel"
| "parseParameterList_loop (Suc n) params ts p =
     (if currentToken ts p \<noteq> '')''
      then bind (consume ts p) (\<lambda>parName p1.
           bind (expect '':'' ts p1) (\<lambda>_ p2.
           bind (parseType n ts p2) (\<lambda>ty p3.
           bind (if currentToken ts p3 = ''=''
                 then bind (consume ts p3) (\<lambda>_ p4.
                      bind (parseExpression n ts p4) (\<lambda>e p5. Done (Some e) p5))
                 else Done None p3) (\<lambda>dflt p6.
             parseParameterList_loop n (params @ [Param parName ty dflt]) ts
               (if currentToken ts p6 = '','' then Suc p6 else p6)))))
      else Done params p)"

definition parseParameterList :: "nat \<Rightarrow> param list parser" where
  "parseParameterList n ts p = parseParameterList_loop n [] ts p"

fun parseBlockStatement_loop :: "stmt parser \<Rightarrow> nat \<Rightarrow> stmt list \<Rightarrow> stmt list parser" where
  "parseBlockStatement_loop ps 0 statements ts p = OutOfFuel"
| "parseBlockStatement_loop ps (Suc n) statements ts p =
     (if currentToken ts p \<noteq> ''}'' \<and> p < length ts
      then bind (ps ts p) (\<lambda>s p1. parseBlockStatement_loop ps n (statements @ [s]) ts p1)
      else Done statements p)"

definition parseBlockStatement :: "stmt parser \<Rightarrow> nat \<Rightarrow> stmt parser" where
  "parseBlockStatement ps n ts p =
     bind (parseBlockStatement_loop ps n [] ts p) (\<lambda>statements p1.
       Done (BlockStatement statements) p1)"

definition parseFunctionDeclaration :: "stmt parser \<Rightarrow> nat \<Rightarrow> stmt parser" where
  "parseFunctionDeclaration ps n ts p =
     bind (consume ts p) (\<lambda>_ p1.
     bind (consume ts p1) (\<lambda>funName p2.
     bind (expect ''('' ts p2) (\<lambda>_ p3.
     bind (parseParameterList n ts p3) (\<lambda>params p4.
     bind (expect '')'' ts p4) (\<lambda>_ p5.
     bind (expect ''->'' ts p5) (\<lambda>_ p6.
     bind (parseType n ts p6) (\<lambda>returnType p7.
     bind (expect ''{'' ts p7) (\<lambda>_ p8.
     bind (parseBlockStatement ps n ts p8) (\<lambda>body p9.
     bind (expect ''}'' ts p9) (\<lambda>_ p10.
       Done (FunctionDeclaration funName params returnType body) p10))))))))))"

fun parseIfStatement :: "stmt parser \<Rightarrow> nat \<Rightarrow> stmt parser" where
  "parseIfStatement ps 0 ts p = OutOfFuel"
| "parseIfStatement ps (Suc n) ts p =
     bind (consume ts p) (\<lambda>_ p1.
     bind (expect ''('' ts p1) (\<lambda>_ p2.
     bind (parseExpression n ts p2) (\<lambda>condition p3.
     bind (expect '')'' ts p3) (\<lambda>_ p4.
     bind (expect ''{'' ts p4) (\<lambda>_ p5.
     bind (parseBlockStatement ps n ts p5) (\<lambda>consequent p6.
     bind (expect ''}'' ts p6) (\<lambda>_ p7.
       if currentToken ts p7 = ''else'' then
         bind (consume ts p7) (\<lambda>_ p8.
           if currentToken ts p8 = ''if'' then
             bind (parseIfStatement ps n ts p8) (\<lambda>alternate p9.
               Done (IfStatement condition consequent (Some alternate)) p9)
           else
             bind (expect ''{'' ts p8) (\<lambda>_ p9.
             bind (parseBlockStatement ps n ts p9) (\<lambda>alternate p10.
             bind (expect ''}'' ts p10) (\<lambda>_ p11.
               Done (IfStatement condition consequent (Some alternate)) p11))))
       else Done (IfStatement condition consequent None) p7)))))))"

definition parseForStatement :: "stmt parser \<Rightarrow> nat \<Rightarrow> stmt parser" where
  "parseForStatement ps n ts p =
     bind (consume ts p) (\<lambda>_ p1.
     bind (expect ''('' ts p1) (\<lambda>_ p2.
     bind (parseVariableDeclaration n ts p2) (\<lambda>init p3.
     bind (parseExpression n ts p3) (\<lambda>condition p4.
     bind (expect '';'' ts p4) (\<lambda>_ p5.
     bind (parseExpression n ts p5) (\<lambda>update p6.
     bind (expect '')'' ts p6) (\<lambda>_ p7.
     bind (expect ''{'' ts p7) (\<lambda>_ p8.
     bind (parseBlockStatement ps n ts p8) (\<lambda>body p9.
     bind (expect ''}'' ts p9) (\<lambda>_ p10.
       Done (ForStatement init condition update body) p10))))))))))"

definition parseWhileStatement :: "stmt parser \<Rightarrow> nat \<Rightarrow> stmt parser" where
  "parseWhileStatement ps n ts p =
     bind (consume ts p) (\<lambda>_ p1.
     bind (expect ''('' ts p1) (\<lambda>_ p2.
     bind (parseExpression n ts p2) (\<lambda>condition p3.
     bind (expect '')'' ts p3) (\<lambda>_ p4.
     bind (expect ''{'' ts p4) (\<lambda>_ p5.
     bind (parseBlockStatement ps n ts p5) (\<lambda>body p6.
     bind (expect ''}'' ts p6) (\<lambda>_ p7.
       Done (WhileStatement condition body) p7)))))))"

definition parseReturnStatement :: "nat \<Rightarrow> stmt parser" where
  "parseReturnStatement n ts p =
     bind (consume ts p) (\<lambda>_ p1.
     bind (if currentToken ts p1 \<noteq> '';''
           then bind (parseExpression n ts p1) (\<lambda>e p2. Done (Some e) p2)
           else Done None p1) (\<lambda>v p3.
     bind (expect '';'' ts p3) (\<lambda>_ p4. Done (ReturnStatement v) p4)))"

definition parseExpressionStatement :: "nat \<Rightarrow> stmt parser" where
  "parseExpressionStatement n ts p =
     bind (parseExpression n ts p) (\<lambda>expression p1.
     bind (expect '';'' ts p1) (\<lambda>_ p2. Done (ExpressionStatement expression) p2))"

fun parseStatement :: "nat \<Rightarrow> stmt parser" where
  "parseStatement 0 ts p = OutOfFuel"
| "parseStatement (Suc n) ts p =
     (let token = currentToken ts p in
      if token = ''let'' \<or> token = ''const'' then parseVariableDeclaration n ts p
      else if token = ''func''
        then parseFunctionDeclaration (\<lambda>ts' p'. parseStatement n ts' p') n ts p
      else if token = ''if'' then parseIfStatement (\<lambda>ts' p'. parseStatement n ts' p') n ts p
      else if token = ''for'' then parseForStatement (\<lambda>ts' p'. parseStatement n ts' p') n ts p
      else if token = ''while''
        then parseWhileStatement (\<lambda>ts' p'. parseStatement n ts' p') n ts p
      else if token = ''return'' then parseReturnStatement n ts p
      else parseExpressionStatement n ts p)"

text \<open>\<^verbatim>\<open>parseProgram\<close>: a statement that throws leaves a diagnostic whose column is the
  position at the throw, and parsing resumes one token later.\<close>

fun parseProgram_loop ::
  "nat \<Rightarrow> stmt list \<Rightarrow> CompileError list \<Rightarrow> (stmt list \<times> CompileError list) parser" where
  "parseProgram_loop 0 statements errors ts p = OutOfFuel"
| "parseProgram_loop (Suc n) statements errors ts p =
     (if p < length ts then
        (case parseStatement n ts p of
           Done s p1 \<Rightarrow> parseProgram_loop n (statements @ [s]) errors ts p1
         | Thrown msg p1 \<Rightarrow>
             parseProgram_loop n statements
               (errors @ [\<lparr>line = 1, column = p1, message = msg, severity = ''error''\<rparr>])
               ts (Suc p1)
         | OutOfFuel \<Rightarrow> OutOfFuel
         | Unmodelled \<Rightarrow> Unmodelled)
      else Done (statements, errors) p)"

definition parseProgram :: "nat \<Rightarrow> (program \<times> CompileError list) parser" where
  "parseProgram n ts p =
     bind (parseProgram_loop n [] [] ts p) (\<lambda>r p1. Done (Program (fst r), snd r) p1)"

definition parse :: "nat \<Rightarrow> string \<Rightarrow> (program \<times> CompileError list, nat) outcome" where
  "parse n code = parseProgram n (tokenize code) 0"

subsection \<open>Values and the interpreter's state\<close>

text \<open>
  A runtime value is a JavaScript value. An array or object carries the reference it
  got when its literal was evaluated: strict equality compares references. No operation
  of the evaluator writes to an array or object after its literal is evaluated, so the
  contents stay with the reference.
\<close>

datatype val =
    VNull
  | VUndefined
  | VNumber rat
  | VString string
  | VBoolean bool
  | VArray nat "val list"
  | VObject nat "(string \<times> val) list"

record binding =
  varType :: TypeInfo
  varValue :: val
  mutable :: bool

datatype funcdef =
    BuiltinFunction string "param list" TypeInfo
  | UserFunction string "param list" TypeInfo stmt

text \<open>
  An \<^verbatim>\<open>ExecutionContext\<close> object holds two mutable maps and a parent link that is set
  when the object is built and never assigned again. The maps live in the interpreter's
  store of frames; a context is the address of its frame with its parent context.
\<close>

record frame =
  variables :: "(string \<times> binding) list"
  functionTable :: "(string \<times> funcdef) list"

datatype ctx = Context nat "ctx option"

record interp =
  frames :: "frame list"
  outputBuffer :: "string list"
  warningsBuffer :: "string list"
  nextRef :: nat

record ExecutionResult =
  success :: bool
  result :: "val option"
  error :: "string option"
  outputLines :: "string list"
  warningLines :: "string list"
  compileErrors :: "CompileError list option"

definition emptyFrame :: frame where
  "emptyFrame = \<lparr>variables = [], functionTable = []\<rparr>"

definition getFrame :: "interp \<Rightarrow> nat \<Rightarrow> frame" where
  "getFrame st a = (if a < length (frames st) then frames st ! a else emptyFrame)"

definition globalContext :: ctx where
  "globalContext = Context 0 None"

text \<open>\<^verbatim>\<open>{ variables: new Map(), functions: new Map(), parent: context }\<close>\<close>

definition newContext :: "ctx \<Rightarrow> interp \<Rightarrow> ctx \<times> interp" where
  "newContext parent st =
     (Context (length (frames st)) (Some parent), st\<lparr>frames := frames st @ [emptyFrame]\<rparr>)"

text \<open>\<^verbatim>\<open>context.variables.set(name, b)\<close> and \<^verbatim>\<open>context.functions.set(name, f)\<close>: a \<^verbatim>\<open>Map\<close>
  keeps the place of a key it has and appends a new key.\<close>

fun setVariable :: "ctx \<Rightarrow> string \<Rightarrow> binding \<Rightarrow> interp \<Rightarrow> interp" where
  "setVariable (Context a parent) x b st =
     st\<lparr>frames := (frames st)[a := (getFrame st a)
           \<lparr>variables := AList.update x b (variables (getFrame st a))\<rparr>]\<rparr>"

fun setFunction :: "ctx \<Rightarrow> string \<Rightarrow> funcdef \<Rightarrow> interp \<Rightarrow> interp" where
  "setFunction (Context a parent) x f st =
     st\<lparr>frames := (frames st)[a := (getFrame st a)
           \<lparr>functionTable := AList.update x f (functionTable (getFrame st a))\<rparr>]\<rparr>"

text \<open>The walk of \<^verbatim>\<open>resolveVariable\<close> and \<^verbatim>\<open>resolveVariableReference\<close> up the parent
  chain: the address of the nearest frame that binds the name, with the binding.\<close>

fun lookupVariable :: "string \<Rightarrow> ctx \<Rightarrow> interp \<Rightarrow> (nat \<times> binding) option" where
  "lookupVariable x (Context a parent) st =
     (case map_of (variables (getFrame st a)) x of
        Some b \<Rightarrow> Some (a, b)
      | None \<Rightarrow> (case parent of None \<Rightarrow> None | Some c \<Rightarrow> lookupVariable x c st))"

definition resolveVariable :: "string \<Rightarrow> ctx \<Rightarrow> interp \<Rightarrow> (val, interp) outcome" where
  "resolveVariable x c st =
     (case lookupVariable x c st of
        Some r \<Rightarrow> Done (varValue (snd r)) st
      | None \<Rightarrow> Thrown (''Undefined variable: '' @ x) st)"

definition resolveVariableReference ::
  "string \<Rightarrow> ctx \<Rightarrow> interp \<Rightarrow> (nat \<times> binding, interp) outcome" where
  "resolveVariableReference x c st =
     (case lookupVariable x c st of
        Some r \<Rightarrow> Done r st
      | None \<Rightarrow> Thrown (''Undefined variable: '' @ x) st)"

fun resolveFunction :: "string \<Rightarrow> ctx \<Rightarrow> interp \<Rightarrow> funcdef option" where
  "resolveFunction x (Context a parent) st =
     (case map_of (functionTable (getFrame st a)) x of
        Some f \<Rightarrow> Some f
      | None \<Rightarrow> (case parent of None \<Rightarrow> None | Some c \<Rightarrow> resolveFunction x c st))"

text \<open>\<^verbatim>\<open>variable.value = value\<close> on the binding object found at frame \<open>a\<close>.\<close>

definition assignBinding :: "nat \<Rightarrow> string \<Rightarrow> val \<Rightarrow> interp \<Rightarrow> interp" where
  "assignBinding a x v st =
     st\<lparr>frames := (frames st)[a := (getFrame st a)
           \<lparr>variables := map (\<lambda>(k, b). if k = x then (k, b\<lparr>varValue := v\<rparr>) else (k, b))
                            (variables (getFrame st a))\<rparr>]\<rparr>"

definition builtinFunctions :: "(string \<times> funcdef) list" where
  "builtinFunctions =
     [(''print'', BuiltinFunction ''print''
         [Param ''args'' (TypeInfo ''Array<any>'' False False None) None]
         (TypeInfo ''void'' True False None)),
      (''println'', BuiltinFunction ''println''
         [Param ''args'' (TypeInfo ''Array<any>'' False False None) None]
         (TypeInfo ''void'' True False None)),
      (''len'', BuiltinFunction ''len''
         [Param ''obj'' (TypeInfo ''Array<any> | string'' False False None) None]
         (TypeInfo ''int'' True False None)),
      (''type'', BuiltinFunction ''type''
         [Param ''obj'' (TypeInfo ''any'' False False None) None]
         (TypeInfo ''string'' True False None)),
      (''toString'', BuiltinFunction ''toString''
         [Param ''obj'' (TypeInfo ''any'' False False None) None]
         (TypeInfo ''string'' True False None)),
      (''parseInt'', BuiltinFunction ''parseInt''
         [Param ''str'' (TypeInfo ''string'' True False None) None]
         (TypeInfo ''int?'' True True None)),
      (''parseFloat'', BuiltinFunction ''parseFloat''
         [Param ''str'' (TypeInfo ''string'' True False None) None]
         (TypeInfo ''float?'' True True None))]"

text \<open>The interpreter after its constructor.\<close>

definition initialInterp :: interp where
  "initialInterp =
     \<lparr>frames = [\<lparr>variables = [], functionTable = builtinFunctions\<rparr>],
      outputBuffer = [], warningsBuffer = [], nextRef = 0\<rparr>"

subsection \<open>Operations of the host on values\<close>

definition digitChar :: "nat \<Rightarrow> char" where
  "digitChar d = char_of (48 + d)"

function natToString :: "nat \<Rightarrow> string" where
  "natToString n = (if n < 10 then [digitChar n] else natToString (n div 10) @ [digitChar (n mod 10)])"
  by pat_completeness auto
termination
  by (relation "measure id") auto

definition intToString :: "int \<Rightarrow> string" where
  "intToString i = (if i < 0 then ''-'' @ natToString (nat (- i)) else natToString (nat i))"

text \<open>\<^verbatim>\<open>String(x)\<close> of a number: the decimal digits of an integer of at most \<open>2 ^ 53\<close> in
  absolute value; the shortest decimal of any other number is left to the host.\<close>

definition numberToString :: "rat \<Rightarrow> string option" where
  "numberToString q =
     (if isInteger q \<and> js_exact q then Some (intToString \<lfloor>q\<rfloor>) else None)"

definition js_number :: "rat \<Rightarrow> val option" where
  "js_number q = (if js_exact q then Some (VNumber q) else None)"

definition js_toBoolean :: "val \<Rightarrow> bool" where
  "js_toBoolean v =
     (case v of VNull \<Rightarrow> False | VUndefined \<Rightarrow> False | VNumber q \<Rightarrow> q \<noteq> 0
      | VString s \<Rightarrow> s \<noteq> [] | VBoolean b \<Rightarrow> b | VArray r xs \<Rightarrow> True | VObject r ps \<Rightarrow> True)"

definition js_toString :: "val \<Rightarrow> string option" where
  "js_toString v =
     (case v of VNull \<Rightarrow> Some ''null'' | VUndefined \<Rightarrow> Some ''undefined''
      | VNumber q \<Rightarrow> numberToString q | VString s \<Rightarrow> Some s
      | VBoolean b \<Rightarrow> Some (if b then ''true'' else ''false'')
      | VArray r xs \<Rightarrow> None | VObject r ps \<Rightarrow> None)"

definition isStringValue :: "val \<Rightarrow> bool" where
  "isStringValue v = (case v of VString s \<Rightarrow> True | _ \<Rightarrow> False)"

text \<open>\<^verbatim>\<open>left + right\<close>: numeric addition, or concatenation when an operand is a string.\<close>

definition js_add :: "val \<Rightarrow> val \<Rightarrow> val option" where
  "js_add l r =
     (case (l, r) of
        (VNumber x, VNumber y) \<Rightarrow> js_number (x + y)
      | _ \<Rightarrow> if isStringValue l \<or> isStringValue r
             then (case (js_toString l, js_toString r) of
                     (Some a, Some b) \<Rightarrow> Some (VString (a @ b)) | _ \<Rightarrow> None)
             else None)"

definition js_sub :: "val \<Rightarrow> val \<Rightarrow> val option" where
  "js_sub l r = (case (l, r) of (VNumber x, VNumber y) \<Rightarrow> js_number (x - y) | _ \<Rightarrow> None)"

definition js_mul :: "val \<Rightarrow> val \<Rightarrow> val option" where
  "js_mul l r = (case (l, r) of (VNumber x, VNumber y) \<Rightarrow> js_number (x * y) | _ \<Rightarrow> None)"

definition js_div :: "val \<Rightarrow> val \<Rightarrow> val option" where
  "js_div l r =
     (case (l, r) of
        (VNumber x, VNumber y) \<Rightarrow> if y = 0 then None else js_number (x / y)
      | _ \<Rightarrow> None)"

definition js_mod :: "val \<Rightarrow> val \<Rightarrow> val option" where
  "js_mod l r =
     (case (l, r) of
        (VNumber x, VNumber y) \<Rightarrow>
          if y = 0 then None else js_number (x - y * of_int (js_trunc (x / y)))
      | _ \<Rightarrow> None)"

text \<open>\<^verbatim>\<open>left === right\<close>\<close>

definition js_strictEquals :: "val \<Rightarrow> val \<Rightarrow> bool" where
  "js_strictEquals l r =
     (case (l, r) of
        (VNull, VNull) \<Rightarrow> True
      | (VUndefined, VUndefined) \<Rightarrow> True
      | (VNumber x, VNumber y) \<Rightarrow> x = y
      | (VString a, VString b) \<Rightarrow> a = b
      | (VBoolean a, VBoolean b) \<Rightarrow> a = b
      | (VArray a xs, VArray b ys) \<Rightarrow> a = b
      | (VObject a ps, VObject b qs) \<Rightarrow> a = b
      | _ \<Rightarrow> False)"

fun stringLess :: "string \<Rightarrow> string \<Rightarrow> bool" where
  "stringLess [] [] = False"
| "stringLess [] (y # ys) = True"
| "stringLess (x # xs) [] = False"
| "stringLess (x # xs) (y # ys) =
     (if x = y then stringLess xs ys else (of_char x :: nat) < of_char y)"

text \<open>\<^verbatim>\<open>left < right\<close> on two numbers or two strings.\<close>

definition js_less :: "val \<Rightarrow> val \<Rightarrow> bool option" where
  "js_less l r =
     (case (l, r) of
        (VNumber x, VNumber y) \<Rightarrow> Some (x < y)
      | (VString a, VString b) \<Rightarrow> Some (stringLess a b)
      | _ \<Rightarrow> None)"

definition js_lessEq :: "val \<Rightarrow> val \<Rightarrow> bool option" where
  "js_lessEq l r = map_option Not (js_less r l)"

definition js_negate :: "val \<Rightarrow> val option" where
  "js_negate v = (case v of VNumber x \<Rightarrow> js_number (- x) | _ \<Rightarrow> None)"

definition isIndexName :: "string \<Rightarrow> bool" where
  "isIndexName p = (p \<noteq> [] \<and> list_all isDigit p)"

definition isCanonicalIndex :: "string \<Rightarrow> bool" where
  "isCanonicalIndex p = (isIndexName p \<and> (p = ''0'' \<or> take 1 p \<noteq> ''0''))"

text \<open>\<^verbatim>\<open>object[property]\<close> on a value that is neither null nor undefined. A name made of
  digits is no member of any prototype; \<^verbatim>\<open>length\<close> of an array or string is its length;
  every other name that the value does not own is left to the host.\<close>

definition js_getProperty :: "val \<Rightarrow> string \<Rightarrow> val option" where
  "js_getProperty obj p =
     (case obj of
        VArray r xs \<Rightarrow>
          if p = ''length'' then Some (VNumber (of_nat (length xs)))
          else if isIndexName p
          then Some (if isCanonicalIndex p \<and> digitsValue p < length xs
                     then xs ! digitsValue p else VUndefined)
          else None
      | VString s \<Rightarrow>
          if p = ''length'' then Some (VNumber (of_nat (length s)))
          else if isIndexName p
          then Some (if isCanonicalIndex p \<and> digitsValue p < length s
                     then VString [s ! digitsValue p] else VUndefined)
          else None
      | VObject r ps \<Rightarrow>
          (case map_of ps p of
             Some v \<Rightarrow> Some v
           | None \<Rightarrow> if isIndexName p then Some VUndefined else None)
      | VNumber q \<Rightarrow> if isIndexName p then Some VUndefined else None
      | VBoolean b \<Rightarrow> if isIndexName p then Some VUndefined else None
      | VNull \<Rightarrow> None
      | VUndefined \<Rightarrow> None)"

subsection \<open>Helpers of the interpreter\<close>

fun valueToString :: "val \<Rightarrow> string option"
and valuesToStrings :: "val list \<Rightarrow> string list option" where
  "valueToString VNull = Some ''null''"
| "valueToString VUndefined = Some ''undefined''"
| "valueToString (VString s) = Some s"
| "valueToString (VBoolean b) = Some (if b then ''true'' else ''false'')"
| "valueToString (VArray r xs) =
     map_option (\<lambda>strs. ''['' @ joinStrings '', '' strs @ '']'') (valuesToStrings xs)"
| "valueToString (VObject r ps) = None"
| "valueToString (VNumber q) = numberToString q"
| "valuesToStrings [] = Some []"
| "valuesToStrings (v # vs) =
     (case valueToString v of
        None \<Rightarrow> None
      | Some s \<Rightarrow> map_option (\<lambda>strs. s # strs) (valuesToStrings vs))"

definition isTruthy :: "val \<Rightarrow> bool" where
  "isTruthy v =
     (case v of VNull \<Rightarrow> False | VUndefined \<Rightarrow> False | VBoolean b \<Rightarrow> b
      | VNumber q \<Rightarrow> q \<noteq> 0 | VString s \<Rightarrow> 0 < length s
      | VArray r xs \<Rightarrow> True | VObject r ps \<Rightarrow> True)"

definition getValueType :: "val \<Rightarrow> TypeInfo" where
  "getValueType v =
     (case v of
        VNull \<Rightarrow> TypeInfo ''null'' True True None
      | VNumber q \<Rightarrow> if isInteger q then TypeInfo ''int'' True False None
                     else TypeInfo ''float'' True False None
      | VString s \<Rightarrow> TypeInfo ''string'' True False None
      | VBoolean b \<Rightarrow> TypeInfo ''bool'' True False None
      | VArray r xs \<Rightarrow> TypeInfo ''Array<any>'' False False None
      | VObject r ps \<Rightarrow> TypeInfo ''object'' False False None
      | VUndefined \<Rightarrow> TypeInfo ''object'' False False None)"

definition getDefaultValue :: "TypeInfo \<Rightarrow> val" where
  "getDefaultValue ty =
     (if name ty = ''int'' then VNumber 0
      else if name ty = ''float'' then VNumber 0
      else if name ty = ''string'' then VString []
      else if name ty = ''bool'' then VBoolean False
      else if name ty = ''char'' then VString [CHR 0x00]
      else if nullable ty then VNull
      else VNull)"

subsection \<open>The type checker\<close>

definition unknownType :: TypeInfo where
  "unknownType = TypeInfo ''unknown'' False False None"

definition inferBinaryExpressionType :: "string \<Rightarrow> TypeInfo \<Rightarrow> TypeInfo \<Rightarrow> TypeInfo" where
  "inferBinaryExpressionType operator leftType rightType =
     (if operator \<in> set [''+'', ''-'', ''*'', ''/'', ''%''] \<and>
         (name leftType = ''float'' \<or> name rightType = ''float'')
      then TypeInfo ''float'' True False None
      else if operator \<in> set [''+'', ''-'', ''*'', ''/'', ''%''] \<and>
         name leftType = ''int'' \<and> name rightType = ''int''
      then TypeInfo ''int'' True False None
      else if operator = ''+'' \<and> (name leftType = ''string'' \<or> name rightType = ''string'')
      then TypeInfo ''string'' True False None
      else if operator \<in> set [''=='', ''!='', ''<'', ''>'', ''<='', ''>='']
      then TypeInfo ''bool'' True False None
      else if operator \<in> set [''&&'', ''||'']
      then TypeInfo ''bool'' True False None
      else unknownType)"

text \<open>An identifier is looked up in the variables of the global context only.\<close>

fun inferType :: "interp \<Rightarrow> expr \<Rightarrow> TypeInfo" where
  "inferType st (NumberLiteral v numberType) =
     (case getPrimitiveType numberType of
        Some t \<Rightarrow> t
      | None \<Rightarrow> TypeInfo ''int'' True False None)"
| "inferType st (StringLiteral v) = TypeInfo ''string'' True False None"
| "inferType st (BooleanLiteral v) = TypeInfo ''bool'' True False None"
| "inferType st NullLiteral = TypeInfo ''null'' True True None"
| "inferType st (ArrayLiteral []) = TypeInfo ''Array<any>'' False False None"
| "inferType st (ArrayLiteral (e # es)) = createArrayType (inferType st e)"
| "inferType st (Identifier x) =
     (case map_of (variables (getFrame st 0)) x of
        Some b \<Rightarrow> varType b
      | None \<Rightarrow> unknownType)"
| "inferType st (BinaryExpression operator l r) =
     inferBinaryExpressionType operator (inferType st l) (inferType st r)"
| "inferType st e = unknownType"

fun typeCheckStatement :: "interp \<Rightarrow> stmt \<Rightarrow> CompileError list"
and typeCheckStatements :: "interp \<Rightarrow> stmt list \<Rightarrow> CompileError list" where
  "typeCheckStatement st (VariableDeclaration keyword x typeAnnotation initializer mut) =
     (case initializer of
        None \<Rightarrow> []
      | Some e \<Rightarrow>
          if \<not> isAssignable (inferType st e) typeAnnotation
          then [\<lparr>line = 1, column = 1,
                 message = ''Cannot assign '' @ name (inferType st e) @ '' to '' @
                           name typeAnnotation,
                 severity = ''error''\<rparr>]
          else [])"
| "typeCheckStatement st (FunctionDeclaration f params returnType body) =
     typeCheckStatement st body"
| "typeCheckStatement st (BlockStatement body) = typeCheckStatements st body"
| "typeCheckStatement st (ExpressionStatement e) = []"
| "typeCheckStatement st s = []"
| "typeCheckStatements st [] = []"
| "typeCheckStatements st (s # ss) = typeCheckStatement st s @ typeCheckStatements st ss"

fun typeCheck :: "interp \<Rightarrow> program \<Rightarrow> CompileError list" where
  "typeCheck st (Program body) = typeCheckStatements st body"

subsection \<open>The evaluator\<close>

text \<open>
  The functions that evaluate subexpressions or run substatements take the recursive
  \<^verbatim>\<open>executeExpression\<close> and \<^verbatim>\<open>executeStatement\<close> as arguments \<open>ee\<close> and \<open>es\<close>; the two
  functions themselves close the recursion with one unit of fuel for each call.
\<close>

type_synonym 'a exec = "ctx \<Rightarrow> interp \<Rightarrow> ('a, interp) outcome"

text \<open>\<^verbatim>\<open>exprs.map(e => this.executeExpression(e, context))\<close>\<close>

fun executeExpressions :: "(expr \<Rightarrow> val exec) \<Rightarrow> expr list \<Rightarrow> val list exec" where
  "executeExpressions ee [] c st = Done [] st"
| "executeExpressions ee (e # es) c st =
     bind (ee e c st) (\<lambda>v st1.
     bind (executeExpressions ee es c st1) (\<lambda>vs st2. Done (v # vs) st2))"

text \<open>The loop of the object literal: \<^verbatim>\<open>obj[prop.key] = executeExpression(prop.value)\<close>.
  The key \<^verbatim>\<open>__proto__\<close> reaches a setter of the host.\<close>

fun executeProperties ::
  "(expr \<Rightarrow> val exec) \<Rightarrow> (string \<times> expr) list \<Rightarrow> (string \<times> val) list \<Rightarrow> (string \<times> val) list exec" where
  "executeProperties ee [] obj c st = Done obj st"
| "executeProperties ee (p # ps) obj c st =
     bind (ee (snd p) c st) (\<lambda>v st1.
       if fst p = ''__proto__'' then Unmodelled
       else executeProperties ee ps (AList.update (fst p) v obj) c st1)"

definition executeBinaryExpression ::
  "(expr \<Rightarrow> val exec) \<Rightarrow> string \<Rightarrow> expr \<Rightarrow> expr \<Rightarrow> val exec" where
  "executeBinaryExpression ee operator l r c st =
     bind (ee l c st) (\<lambda>left st1.
     bind (ee r c st1) (\<lambda>right st2.
       if operator = ''+'' then liftHost (js_add left right) st2
       else if operator = ''-'' then liftHost (js_sub left right) st2
       else if operator = ''*'' then liftHost (js_mul left right) st2
       else if operator = ''/'' then liftHost (js_div left right) st2
       else if operator = ''%'' then liftHost (js_mod left right) st2
       else if operator = ''=='' then Done (VBoolean (js_strictEquals left right)) st2
       else if operator = ''!='' then Done (VBoolean (\<not> js_strictEquals left right)) st2
       else if operator = ''<'' then liftHost (map_option VBoolean (js_less left right)) st2
       else if operator = ''>'' then liftHost (map_option VBoolean (js_less right left)) st2
       else if operator = ''<='' then liftHost (map_option VBoolean (js_lessEq left right)) st2
       else if operator = ''>='' then liftHost (map_option VBoolean (js_lessEq right left)) st2
       else if operator = ''&&'' then Done (if js_toBoolean left then right else left) st2
       else if operator = ''||'' then Done (if js_toBoolean left then left else right) st2
       else Thrown (''Unknown binary operator: '' @ operator) st2))"

definition executeUnaryExpression :: "(expr \<Rightarrow> val exec) \<Rightarrow> string \<Rightarrow> expr \<Rightarrow> val exec" where
  "executeUnaryExpression ee operator e c st =
     bind (ee e c st) (\<lambda>operand st1.
       if operator = ''-'' then liftHost (js_negate operand) st1
       else if operator = ''!'' then Done (VBoolean (\<not> js_toBoolean operand)) st1
       else if operator = ''++'' then liftHost (js_add operand (VNumber 1)) st1
       else if operator = ''--'' then liftHost (js_sub operand (VNumber 1)) st1
       else Thrown (''Unknown unary operator: '' @ operator) st1)"

definition executeAssignmentExpression :: "(expr \<Rightarrow> val exec) \<Rightarrow> expr \<Rightarrow> expr \<Rightarrow> val exec" where
  "executeAssignmentExpression ee l r c st =
     bind (ee r c st) (\<lambda>v st1.
       case l of
         Identifier x \<Rightarrow>
           bind (resolveVariableReference x c st1) (\<lambda>variable st2.
             if \<not> mutable (snd variable)
             then Thrown (''Cannot assign to immutable variable: '' @ x) st2
             else Done v (assignBinding (fst variable) x v st2))
       | _ \<Rightarrow> Done v st1)"

text \<open>\<^verbatim>\<open>func.implementation(...args)\<close> for the seven builtins of \<^verbatim>\<open>initializeBuiltins\<close>.\<close>

definition firstArgument :: "val list \<Rightarrow> val" where
  "firstArgument args = (case args of [] \<Rightarrow> VUndefined | a # as \<Rightarrow> a)"

definition callBuiltin :: "string \<Rightarrow> val list \<Rightarrow> interp \<Rightarrow> (val, interp) outcome" where
  "callBuiltin f args st =
     (if f = ''print'' \<or> f = ''println'' then
        (case valuesToStrings args of
           None \<Rightarrow> Unmodelled
         | Some strs \<Rightarrow>
             Done VUndefined (st\<lparr>outputBuffer := outputBuffer st @ [joinStrings '' '' strs]\<rparr>))
      else if f = ''len'' then
        (case firstArgument args of
           VString s \<Rightarrow> Done (VNumber (of_nat (length s))) st
         | VArray r xs \<Rightarrow> Done (VNumber (of_nat (length xs))) st
         | _ \<Rightarrow> Thrown ''len() requires string or array argument'' st)
      else if f = ''type'' then Done (VString (name (getValueType (firstArgument args)))) st
      else if f = ''toString''
        then liftHost (map_option VString (valueToString (firstArgument args))) st
      else Unmodelled)"

text \<open>The parameter loop of \<^verbatim>\<open>executeUserFunction\<close>; a default expression is evaluated in
  the calling context.\<close>

fun bindParameters ::
  "(expr \<Rightarrow> val exec) \<Rightarrow> param list \<Rightarrow> val list \<Rightarrow> nat \<Rightarrow> ctx \<Rightarrow> unit exec" where
  "bindParameters ee [] args i c funcContext st = Done () st"
| "bindParameters ee (p # ps) args i c funcContext st =
     bind (if i < length args then Done (args ! i) st
           else (case defaultValue p of
                   Some e \<Rightarrow> ee e c st
                 | None \<Rightarrow> Done (getDefaultValue (paramType p)) st)) (\<lambda>v st1.
       bindParameters ee ps args (Suc i) c funcContext
         (setVariable funcContext (paramName p)
            \<lparr>varType = paramType p, varValue = v, mutable = True\<rparr> st1))"

definition executeUserFunction ::
  "(expr \<Rightarrow> val exec) \<Rightarrow> (stmt \<Rightarrow> val exec) \<Rightarrow> param list \<Rightarrow> stmt \<Rightarrow> val list \<Rightarrow> val exec" where
  "executeUserFunction ee es params body args c st =
     (case newContext c st of (funcContext, st0) \<Rightarrow>
        bind (bindParameters ee params args 0 c funcContext st0) (\<lambda>_ st1.
          es body funcContext st1))"

definition executeFunctionCall ::
  "(expr \<Rightarrow> val exec) \<Rightarrow> (stmt \<Rightarrow> val exec) \<Rightarrow> expr \<Rightarrow> expr list \<Rightarrow> val exec" where
  "executeFunctionCall ee es callee arguments c st =
     bind (executeExpressions ee arguments c st) (\<lambda>args st1.
       case callee of
         Identifier funcName \<Rightarrow>
           (case resolveFunction funcName c st1 of
              None \<Rightarrow> Thrown (''Unknown function: '' @ funcName) st1
            | Some (BuiltinFunction f params returnType) \<Rightarrow> callBuiltin f args st1
            | Some (UserFunction f params returnType body) \<Rightarrow>
                executeUserFunction ee es params body args c st1)
       | _ \<Rightarrow> Thrown ''Unknown function: undefined'' st1)"

text \<open>\<^verbatim>\<open>array[index]\<close> after the guard: the element at an integral index, \<^verbatim>\<open>undefined\<close>
  at any other number.\<close>

definition executeArrayAccess :: "(expr \<Rightarrow> val exec) \<Rightarrow> expr \<Rightarrow> expr \<Rightarrow> val exec" where
  "executeArrayAccess ee obj idx c st =
     bind (ee obj c st) (\<lambda>array st1.
     bind (ee idx c st1) (\<lambda>index st2.
       case array of
         VArray r xs \<Rightarrow>
           (case index of
              VNumber i \<Rightarrow>
                if i < 0 \<or> of_nat (length xs) \<le> i
                then Thrown ''Array index out of bounds'' st2
                else Done (if isInteger i then xs ! nat \<lfloor>i\<rfloor> else VUndefined) st2
            | _ \<Rightarrow> Thrown ''Array index out of bounds'' st2)
       | _ \<Rightarrow> Thrown ''Array access on non-array value'' st2))"

definition executePropertyAccess :: "(expr \<Rightarrow> val exec) \<Rightarrow> expr \<Rightarrow> string \<Rightarrow> val exec" where
  "executePropertyAccess ee obj property c st =
     bind (ee obj c st) (\<lambda>object st1.
       if object = VNull \<or> object = VUndefined
       then Thrown ''Property access on null or undefined'' st1
       else liftHost (js_getProperty object property) st1)"

definition executeVariableDeclaration ::
  "(expr \<Rightarrow> val exec) \<Rightarrow> string \<Rightarrow> TypeInfo \<Rightarrow> expr option \<Rightarrow> bool \<Rightarrow> val exec" where
  "executeVariableDeclaration ee x typeAnnotation initializer mut c st =
     bind (case initializer of
             Some e \<Rightarrow> ee e c st
           | None \<Rightarrow> Done (getDefaultValue typeAnnotation) st) (\<lambda>v st1.
       Done VUndefined
         (setVariable c x \<lparr>varType = typeAnnotation, varValue = v, mutable = mut\<rparr> st1))"

definition executeFunctionDeclaration ::
  "string \<Rightarrow> param list \<Rightarrow> TypeInfo \<Rightarrow> stmt \<Rightarrow> val exec" where
  "executeFunctionDeclaration f params returnType body c st =
     Done VUndefined (setFunction c f (UserFunction f params returnType body) st)"

text \<open>\<^verbatim>\<open>for (const s of body) { result = this.executeStatement(s, context); }\<close>\<close>

fun executeStatements :: "(stmt \<Rightarrow> val exec) \<Rightarrow> stmt list \<Rightarrow> val \<Rightarrow> val exec" where
  "executeStatements es [] r c st = Done r st"
| "executeStatements es (s # ss) r c st =
     bind (es s c st) (\<lambda>r1 st1. executeStatements es ss r1 c st1)"

definition executeBlockStatement :: "(stmt \<Rightarrow> val exec) \<Rightarrow> stmt list \<Rightarrow> val exec" where
  "executeBlockStatement es body c st =
     (case newContext c st of (blockContext, st0) \<Rightarrow>
        executeStatements es body VNull blockContext st0)"

definition executeIfStatement ::
  "(expr \<Rightarrow> val exec) \<Rightarrow> (stmt \<Rightarrow> val exec) \<Rightarrow> expr \<Rightarrow> stmt \<Rightarrow> stmt option \<Rightarrow> val exec" where
  "executeIfStatement ee es cond consequent alternate c st =
     bind (ee cond c st) (\<lambda>condition st1.
       if isTruthy condition then es consequent c st1
       else (case alternate of
               Some s \<Rightarrow> es s c st1
             | None \<Rightarrow> Done VNull st1))"

fun executeForStatement_loop ::
  "(expr \<Rightarrow> val exec) \<Rightarrow> (stmt \<Rightarrow> val exec) \<Rightarrow> nat \<Rightarrow> expr \<Rightarrow> expr \<Rightarrow> stmt \<Rightarrow> val \<Rightarrow> val exec" where
  "executeForStatement_loop ee es 0 cond update body r c st = OutOfFuel"
| "executeForStatement_loop ee es (Suc n) cond update body r c st =
     bind (ee cond c st) (\<lambda>condition st1.
       if isTruthy condition
       then bind (es body c st1) (\<lambda>r1 st2.
            bind (ee update c st2) (\<lambda>_ st3.
              executeForStatement_loop ee es n cond update body r1 c st3))
       else Done r st1)"

definition executeForStatement ::
  "(expr \<Rightarrow> val exec) \<Rightarrow> (stmt \<Rightarrow> val exec) \<Rightarrow> nat \<Rightarrow> stmt \<Rightarrow> expr \<Rightarrow> expr \<Rightarrow> stmt \<Rightarrow> val exec" where
  "executeForStatement ee es n init cond update body c st =
     (case newContext c st of (forContext, st0) \<Rightarrow>
        bind (es init forContext st0) (\<lambda>_ st1.
          executeForStatement_loop ee es n cond update body VNull forContext st1))"

fun executeWhileStatement_loop ::
  "(expr \<Rightarrow> val exec) \<Rightarrow> (stmt \<Rightarrow> val exec) \<Rightarrow> nat \<Rightarrow> expr \<Rightarrow> stmt \<Rightarrow> val \<Rightarrow> val exec" where
  "executeWhileStatement_loop ee es 0 cond body r c st = OutOfFuel"
| "executeWhileStatement_loop ee es (Suc n) cond body r c st =
     bind (ee cond c st) (\<lambda>condition st1.
       if isTruthy condition
       then bind (es body c st1) (\<lambda>r1 st2.
              executeWhileStatement_loop ee es n cond body r1 c st2)
       else Done r st1)"

definition executeWhileStatement ::
  "(expr \<Rightarrow> val exec) \<Rightarrow> (stmt \<Rightarrow> val exec) \<Rightarrow> nat \<Rightarrow> expr \<Rightarrow> stmt \<Rightarrow> val exec" where
  "executeWhileStatement ee es n cond body c st =
     executeWhileStatement_loop ee es n cond body VNull c st"

definition executeReturnStatement :: "(expr \<Rightarrow> val exec) \<Rightarrow> expr option \<Rightarrow> val exec" where
  "executeReturnStatement ee v c st =
     (case v of
        Some e \<Rightarrow> ee e c st
      | None \<Rightarrow> Done VNull st)"

fun executeStatement :: "nat \<Rightarrow> stmt \<Rightarrow> val exec"
and executeExpression :: "nat \<Rightarrow> expr \<Rightarrow> val exec" where
  "executeStatement 0 s c st = OutOfFuel"
| "executeStatement (Suc n) (VariableDeclaration keyword x typeAnnotation initializer mut) c st =
     executeVariableDeclaration (\<lambda>e c' st'. executeExpression n e c' st')
       x typeAnnotation initializer mut c st"
| "executeStatement (Suc n) (FunctionDeclaration f params returnType body) c st =
     executeFunctionDeclaration f params returnType body c st"
| "executeStatement (Suc n) (ExpressionStatement e) c st = executeExpression n e c st"
| "executeStatement (Suc n) (BlockStatement body) c st =
     executeBlockStatement (\<lambda>s c' st'. executeStatement n s c' st') body c st"
| "executeStatement (Suc n) (IfStatement cond consequent alternate) c st =
     executeIfStatement (\<lambda>e c' st'. executeExpression n e c' st')
       (\<lambda>s c' st'. executeStatement n s c' st') cond consequent alternate c st"
| "executeStatement (Suc n) (ForStatement init cond update body) c st =
     executeForStatement (\<lambda>e c' st'. executeExpression n e c' st')
       (\<lambda>s c' st'. executeStatement n s c' st') n init cond update body c st"
| "executeStatement (Suc n) (WhileStatement cond body) c st =
     executeWhileStatement (\<lambda>e c' st'. executeExpression n e c' st')
       (\<lambda>s c' st'. executeStatement n s c' st') n cond body c st"
| "executeStatement (Suc n) (ReturnStatement v) c st =
     executeReturnStatement (\<lambda>e c' st'. executeExpression n e c' st') v c st"
| "executeExpression 0 e c st = OutOfFuel"
| "executeExpression (Suc n) (NumberLiteral v numberType) c st = Done (VNumber v) st"
| "executeExpression (Suc n) (StringLiteral v) c st = Done (VString v) st"
| "executeExpression (Suc n) (BooleanLiteral v) c st = Done (VBoolean v) st"
| "executeExpression (Suc n) NullLiteral c st = Done VNull st"
| "executeExpression (Suc n) (ArrayLiteral elements) c st =
     bind (executeExpressions (\<lambda>e c' st'. executeExpression n e c' st') elements c st)
       (\<lambda>vs st1. Done (VArray (nextRef st1) vs) (st1\<lparr>nextRef := Suc (nextRef st1)\<rparr>))"
| "executeExpression (Suc n) (ObjectLiteral properties) c st =
     bind (executeProperties (\<lambda>e c' st'. executeExpression n e c' st') properties [] c st)
       (\<lambda>obj st1. Done (VObject (nextRef st1) obj) (st1\<lparr>nextRef := Suc (nextRef st1)\<rparr>))"
| "executeExpression (Suc n) (Identifier x) c st = resolveVariable x c st"
| "executeExpression (Suc n) (BinaryExpression operator l r) c st =
     executeBinaryExpression (\<lambda>e c' st'. executeExpression n e c' st') operator l r c st"
| "executeExpression (Suc n) (UnaryExpression operator e) c st =
     executeUnaryExpression (\<lambda>e c' st'. executeExpression n e c' st') operator e c st"
| "executeExpression (Suc n) (AssignmentExpression l r) c st =
     executeAssignmentExpression (\<lambda>e c' st'. executeExpression n e c' st') l r c st"
| "executeExpression (Suc n) (FunctionCall callee arguments) c st =
     executeFunctionCall (\<lambda>e c' st'. executeExpression n e c' st')
       (\<lambda>s c' st'. executeStatement n s c' st') callee arguments c st"
| "executeExpression (Suc n) (ArrayAccess obj idx) c st =
     executeArrayAccess (\<lambda>e c' st'. executeExpression n e c' st') obj idx c st"
| "executeExpression (Suc n) (PropertyAccess obj property) c st =
     executePropertyAccess (\<lambda>e c' st'. executeExpression n e c' st') obj property c st"

text \<open>\<^verbatim>\<open>executeAST\<close> on the node that \<^verbatim>\<open>parse\<close> returns, which is always a \<^verbatim>\<open>Program\<close>.\<close>

fun executeAST :: "nat \<Rightarrow> program \<Rightarrow> val exec" where
  "executeAST n (Program body) c st =
     executeStatements (\<lambda>s c' st'. executeStatement n s c' st') body VNull c st"

subsection \<open>The entry point\<close>

text \<open>\<^verbatim>\<open>execute\<close> empties the two buffers, parses, type checks and evaluates against the
  global context; the \<^verbatim>\<open>catch\<close> turns a thrown error into a result.\<close>

definition execute :: "nat \<Rightarrow> string \<Rightarrow> interp \<Rightarrow> (ExecutionResult, interp) outcome" where
  "execute n code st =
     (let st0 = st\<lparr>outputBuffer := [], warningsBuffer := []\<rparr> in
      case parse n code of
        Done r p \<Rightarrow>
          if snd r \<noteq> [] then
            Done \<lparr>success = False, result = None, error = None,
                  outputLines = outputBuffer st0, warningLines = warningsBuffer st0,
                  compileErrors = Some (snd r)\<rparr> st0
          else if typeCheck st0 (fst r) \<noteq> [] then
            Done \<lparr>success = False, result = None, error = None,
                  outputLines = outputBuffer st0, warningLines = warningsBuffer st0,
                  compileErrors = Some (typeCheck st0 (fst r))\<rparr> st0
          else
            (case executeAST n (fst r) globalContext st0 of
               Done v st1 \<Rightarrow>
                 Done \<lparr>success = True, result = Some v, error = None,
                       outputLines = outputBuffer st1, warningLines = warningsBuffer st1,
                       compileErrors = None\<rparr> st1
             | Thrown msg st1 \<Rightarrow>
                 Done \<lparr>success = False, result = None, error = Some msg,
                       outputLines = outputBuffer st1, warningLines = warningsBuffer st1,
                       compileErrors = None\<rparr> st1
             | OutOfFuel \<Rightarrow> OutOfFuel
             | Unmodelled \<Rightarrow> Unmodelled)
      | Thrown msg p \<Rightarrow>
          Done \<lparr>success = False, result = None, error = Some msg,
                outputLines = outputBuffer st0, warningLines = warningsBuffer st0,
                compileErrors = None\<rparr> st0
      | OutOfFuel \<Rightarrow> OutOfFuel
      | Unmodelled \<Rightarrow> Unmodelled)"

subsection \<open>Growth of the output buffer\<close>

text \<open>
  An outcome \<open>grows\<close> from a state when the output buffer of the state it ends in, returned
  or thrown, starts with the buffer of the state it began in.
\<close>

definition grows :: "interp \<Rightarrow> ('a, interp) outcome \<Rightarrow> bool" where
  "grows st m =
     (case m of
        Done a st' \<Rightarrow> prefix (outputBuffer st) (outputBuffer st')
      | Thrown e st' \<Rightarrow> prefix (outputBuffer st) (outputBuffer st')
      | OutOfFuel \<Rightarrow> True
      | Unmodelled \<Rightarrow> True)"

definition ee_grows :: "(expr \<Rightarrow> val exec) \<Rightarrow> bool" where
  "ee_grows ee = (\<forall>e c st. grows st (ee e c st))"

definition es_grows :: "(stmt \<Rightarrow> val exec) \<Rightarrow> bool" where
  "es_grows es = (\<forall>s c st. grows st (es s c st))"

section \<open>Properties\<close>

subsection \<open>Outcomes and statement lists\<close>

lemma bind_Done [simp]: "bind (Done a s) f = f a s"
  by (simp add: bind_def)

lemma bind_Thrown [simp]: "bind (Thrown e s) f = Thrown e s"
  by (simp add: bind_def)

lemma bind_OutOfFuel [simp]: "bind OutOfFuel f = OutOfFuel"
  by (simp add: bind_def)

lemma bind_Unmodelled [simp]: "bind Unmodelled f = Unmodelled"
  by (simp add: bind_def)

lemma bind_return: "bind m (\<lambda>a s. Done a s) = m"
  by (cases m) simp_all

lemma bind_eq_Done:
  "bind m f = Done b t \<longleftrightarrow> (\<exists>a s. m = Done a s \<and> f a s = Done b t)"
  by (cases m) simp_all

text \<open>Running a list of statements is running a first part and then the rest; the value
  of a list that ends with \<open>s\<close> is the value of \<open>s\<close>.\<close>

lemma executeStatements_append:
  "executeStatements es (ss @ ss') r c st =
     bind (executeStatements es ss r c st) (\<lambda>r1 st1. executeStatements es ss' r1 c st1)"
proof (induction ss arbitrary: r st)
  case Nil
  show ?case by simp
next
  case (Cons s ss)
  show ?case by (cases "es s c st") (simp_all add: Cons.IH)
qed

lemma executeStatements_snoc:
  "executeStatements es (ss @ [s]) r c st =
     bind (executeStatements es ss r c st) (\<lambda>r1 st1. es s c st1)"
proof (induction ss arbitrary: r st)
  case Nil
  show ?case by (cases "es s c st") simp_all
next
  case (Cons a ss)
  show ?case by (cases "es a c st") (simp_all add: Cons.IH)
qed

subsection \<open>A successful run\<close>

text \<open>
  Claim C1. When parsing leaves no diagnostic, the type checker leaves none and the
  evaluation of the program returns a value \<open>v\<close> without a runtime fault, \<^verbatim>\<open>execute\<close>
  returns a result with \<open>success = True\<close> whose \<open>result\<close> is \<open>v\<close>; \<open>v\<close> is the value of the
  last top-level statement, run in the state the statements before it left
  (\<^verbatim>\<open>null\<close> for a program with no statement).
\<close>

theorem execute_success:
  assumes "parse n code = Done (Program body, []) p"
    and "typeCheck (st\<lparr>outputBuffer := [], warningsBuffer := []\<rparr>) (Program body) = []"
    and "executeAST n (Program body) globalContext (st\<lparr>outputBuffer := [], warningsBuffer := []\<rparr>)
           = Done v st'"
  shows "execute n code st =
           Done \<lparr>success = True, result = Some v, error = None,
                 outputLines = outputBuffer st', warningLines = warningsBuffer st',
                 compileErrors = None\<rparr> st'
       \<and> (body = [] \<longrightarrow> v = VNull)
       \<and> (\<forall>ss s. body = ss @ [s] \<longrightarrow>
            (\<exists>r st1.
               executeStatements (\<lambda>s c t. executeStatement n s c t) ss VNull globalContext
                 (st\<lparr>outputBuffer := [], warningsBuffer := []\<rparr>) = Done r st1
             \<and> executeStatement n s globalContext st1 = Done v st'))"
proof (intro conjI allI impI)
  show "execute n code st =
           Done \<lparr>success = True, result = Some v, error = None,
                 outputLines = outputBuffer st', warningLines = warningsBuffer st',
                 compileErrors = None\<rparr> st'"
    using assms by (simp add: execute_def)
  show "v = VNull" if "body = []"
    using assms(3) that by simp
  show "\<exists>r st1.
          executeStatements (\<lambda>s c t. executeStatement n s c t) ss VNull globalContext
            (st\<lparr>outputBuffer := [], warningsBuffer := []\<rparr>) = Done r st1
        \<and> executeStatement n s globalContext st1 = Done v st'"
    if "body = ss @ [s]" for ss s
    using assms(3) that by (simp add: executeStatements_snoc bind_eq_Done)
qed

text \<open>The scenario \<^verbatim>\<open>let x: int = 5; x = x + 1;\<close> followed by \<^verbatim>\<open>x;\<close> in the interpreter after
  its constructor: no diagnostic, and the final value is 6.\<close>

theorem execute_success_witness:
  "\<exists>body p v st'.
     parse 40 ''let x: int = 5; x = x + 1; x;'' = Done (Program body, []) p
   \<and> typeCheck (initialInterp\<lparr>outputBuffer := [], warningsBuffer := []\<rparr>) (Program body) = []
   \<and> executeAST 40 (Program body) globalContext
        (initialInterp\<lparr>outputBuffer := [], warningsBuffer := []\<rparr>) = Done v st'
   \<and> v = VNumber 6
   \<and> execute 40 ''let x: int = 5; x = x + 1; x;'' initialInterp =
        Done \<lparr>success = True, result = Some (VNumber 6), error = None, outputLines = [],
              warningLines = [], compileErrors = None\<rparr> st'"
proof -
  define body where "body =
    [VariableDeclaration ''let'' ''x'' (TypeInfo ''int'' True False None)
       (Some (NumberLiteral 5 ''int'')) True,
     ExpressionStatement
       (AssignmentExpression (Identifier ''x'')
          (BinaryExpression ''+'' (Identifier ''x'') (NumberLiteral 1 ''int''))),
     ExpressionStatement (Identifier ''x'')]"
  define st' where "st' =
    \<lparr>frames = [\<lparr>variables = [(''x'', \<lparr>varType = TypeInfo ''int'' True False None,
                                      varValue = VNumber 6, mutable = True\<rparr>)],
                functionTable = builtinFunctions\<rparr>],
     outputBuffer = [], warningsBuffer = [], nextRef = 0\<rparr>"
  have h1: "parse 40 ''let x: int = 5; x = x + 1; x;'' = Done (Program body, []) 15"
    unfolding body_def by code_simp
  have h2: "typeCheck (initialInterp\<lparr>outputBuffer := [], warningsBuffer := []\<rparr>) (Program body) = []"
    unfolding body_def by code_simp
  have h3: "executeAST 40 (Program body) globalContext
        (initialInterp\<lparr>outputBuffer := [], warningsBuffer := []\<rparr>) = Done (VNumber 6) st'"
    unfolding body_def st'_def by code_simp
  have "outputBuffer st' = []" "warningsBuffer st' = []"
    by (simp_all add: st'_def)
  with execute_success [OF h1 h2 h3] h1 h2 h3 show ?thesis
    by auto
qed

subsection \<open>Assignability\<close>

text \<open>
  Claim C2. \<^verbatim>\<open>isAssignable(from, to)\<close> is true exactly when the names are equal, or \<open>from\<close>
  is \<^verbatim>\<open>int\<close> and \<open>to\<close> is \<^verbatim>\<open>float\<close>, or \<open>to\<close> is nullable and \<open>from\<close> is not. A declaration
  of an \<^verbatim>\<open>int\<close> with a float literal as initializer gets a diagnostic of the type checker
  and a declaration of a \<^verbatim>\<open>float\<close> with the initializer \<^verbatim>\<open>3\<close> gets none; so do the source
  texts \<^verbatim>\<open>let x: int = 3.5;\<close> and \<^verbatim>\<open>let y: float = 3;\<close> run by \<^verbatim>\<open>execute\<close>. (The tokenizer
  reads \<^verbatim>\<open>3.5\<close> as \<^verbatim>\<open>3\<close>, \<^verbatim>\<open>.\<close>, \<^verbatim>\<open>5\<close>, which the parser takes for a property access, of
  type \<^verbatim>\<open>unknown\<close>: the diagnostic of the source text names that type.)
\<close>

theorem isAssignable_rule:
  "(isAssignable from to \<longleftrightarrow>
      name from = name to \<or> (name from = ''int'' \<and> name to = ''float'') \<or>
      (nullable to \<and> \<not> nullable from))
   \<and> typeCheckStatement st
        (VariableDeclaration ''let'' ''x'' (TypeInfo ''int'' True False None)
           (Some (NumberLiteral (7 / 2) ''float'')) True) =
       [\<lparr>line = 1, column = 1, message = ''Cannot assign float to int'', severity = ''error''\<rparr>]
   \<and> typeCheckStatement st
        (VariableDeclaration ''let'' ''y'' (TypeInfo ''float'' True False None)
           (Some (NumberLiteral 3 ''int'')) True) = []
   \<and> returned (execute 40 ''let x: int = 3.5;'' initialInterp) =
       Some \<lparr>success = False, result = None, error = None, outputLines = [], warningLines = [],
              compileErrors = Some [\<lparr>line = 1, column = 1,
                message = ''Cannot assign unknown to int'', severity = ''error''\<rparr>]\<rparr>
   \<and> returned (execute 40 ''let y: float = 3;'' initialInterp) =
       Some \<lparr>success = True, result = Some VUndefined, error = None, outputLines = [],
              warningLines = [], compileErrors = None\<rparr>"
proof (intro conjI)
  show "isAssignable from to \<longleftrightarrow>
      name from = name to \<or> (name from = ''int'' \<and> name to = ''float'') \<or>
      (nullable to \<and> \<not> nullable from)"
    by (auto simp: isAssignable_def)
  show "typeCheckStatement st
        (VariableDeclaration ''let'' ''x'' (TypeInfo ''int'' True False None)
           (Some (NumberLiteral (7 / 2) ''float'')) True) =
       [\<lparr>line = 1, column = 1, message = ''Cannot assign float to int'', severity = ''error''\<rparr>]"
    by (simp add: isAssignable_def getPrimitiveType_def primitiveTypes_def)
  show "typeCheckStatement st
        (VariableDeclaration ''let'' ''y'' (TypeInfo ''float'' True False None)
           (Some (NumberLiteral 3 ''int'')) True) = []"
    by (simp add: isAssignable_def getPrimitiveType_def primitiveTypes_def)
  show "returned (execute 40 ''let x: int = 3.5;'' initialInterp) =
       Some \<lparr>success = False, result = None, error = None, outputLines = [], warningLines = [],
              compileErrors = Some [\<lparr>line = 1, column = 1,
                message = ''Cannot assign unknown to int'', severity = ''error''\<rparr>]\<rparr>"
    by code_simp
  show "returned (execute 40 ''let y: float = 3;'' initialInterp) =
       Some \<lparr>success = True, result = Some VUndefined, error = None, outputLines = [],
              warningLines = [], compileErrors = None\<rparr>"
    by code_simp
qed

subsection \<open>Assignment to an identifier\<close>

text \<open>
  What \<^verbatim>\<open>executeAssignmentExpression\<close> does with an identifier on the left, once the right
  side has returned \<open>v\<close>: the walk up the parent chain finds the nearest frame that binds
  the name; no binding is an error, an immutable binding is an error, a mutable binding
  gets \<open>v\<close>. The assignment changes no frame's set of names.
\<close>

lemma executeAssignmentExpression_Identifier:
  assumes "ee r c st = Done v st1"
  shows "executeAssignmentExpression ee (Identifier x) r c st =
           (case lookupVariable x c st1 of
              None \<Rightarrow> Thrown (''Undefined variable: '' @ x) st1
            | Some found \<Rightarrow>
                if mutable (snd found) then Done v (assignBinding (fst found) x v st1)
                else Thrown (''Cannot assign to immutable variable: '' @ x) st1)"
  using assms
  by (simp add: executeAssignmentExpression_def resolveVariableReference_def split: option.split)

lemma lookupVariable_nearest:
  "map_of (variables (getFrame st a)) x = Some b \<Longrightarrow>
   lookupVariable x (Context a parent) st = Some (a, b)"
  by simp

lemma lookupVariable_parent:
  "map_of (variables (getFrame st a)) x = None \<Longrightarrow>
   lookupVariable x (Context a (Some c)) st = lookupVariable x c st"
  by simp

lemma assignBinding_keeps_names:
  "map (\<lambda>f. map fst (variables f)) (frames (assignBinding a x v st)) =
   map (\<lambda>f. map fst (variables f)) (frames st)"
proof -
  have "map fst (map (\<lambda>(k, b). if k = x then (k, b\<lparr>varValue := v\<rparr>) else (k, b)) al) = map fst al"
    for al :: "(string \<times> binding) list"
    by (induction al) auto
  then show ?thesis
    by (cases "a < length (frames st)")
       (simp_all add: assignBinding_def getFrame_def map_update list_update_same_conv
          list_update_beyond)
qed

text \<open>
  Claim C3. An assignment to a plain identifier resolves the binding through the parent
  chain, creates no binding, and raises a runtime error when the name is unbound or the
  binding is immutable; after \<^verbatim>\<open>const pi: float = 3.14;\<close> the statement \<^verbatim>\<open>pi = 3.0;\<close> raises a
  runtime error that names \<^verbatim>\<open>pi\<close>.

  The code at that input: the tokenizer reads \<^verbatim>\<open>3.14\<close> as the three tokens \<^verbatim>\<open>3\<close>, \<^verbatim>\<open>.\<close>, \<^verbatim>\<open>14\<close>
  (the alternative \<^verbatim>\<open>\w+\<close> stands before \<^verbatim>\<open>\d+\.?\d*\<close>), the parser takes them for a property
  access, and the type checker rejects the declaration. Run as one program, the two
  statements end with that diagnostic and nothing is evaluated; run one after the other,
  the declaration binds nothing and the assignment fails on an undefined variable. With
  an integer constant the assignment is refused as the claim says.
\<close>

theorem const_pi_is_rejected_by_the_type_checker:
  "tokenize ''3.14'' = [''3'', ''.'', ''14'']
   \<and> returned (execute 40 ''const pi: float = 3.14; pi = 3.0;'' initialInterp) =
     Some \<lparr>success = False, result = None, error = None, outputLines = [], warningLines = [],
            compileErrors = Some [\<lparr>line = 1, column = 1,
              message = ''Cannot assign unknown to float'', severity = ''error''\<rparr>]\<rparr>
   \<and> (case execute 40 ''const pi: float = 3.14;'' initialInterp of
        Done r st \<Rightarrow> \<not> success r \<and> lookupVariable ''pi'' globalContext st = None
          \<and> returned (execute 40 ''pi = 3.0;'' st) =
              Some \<lparr>success = False, result = None, error = Some ''Undefined variable: pi'',
                     outputLines = [], warningLines = [], compileErrors = None\<rparr>
      | _ \<Rightarrow> False)
   \<and> returned (execute 40 ''const pi: int = 3; pi = 4;'' initialInterp) =
     Some \<lparr>success = False, result = None,
            error = Some ''Cannot assign to immutable variable: pi'',
            outputLines = [], warningLines = [], compileErrors = None\<rparr>"
  by code_simp

subsection \<open>Array access\<close>

text \<open>The guard of \<^verbatim>\<open>executeArrayAccess\<close> on an array and a number: it asks for a number
  in the range, not for an integer.\<close>

lemma executeArrayAccess_guard:
  assumes "ee obj c st = Done (VArray r xs) st1" and "ee idx c st1 = Done (VNumber i) st2"
  shows "executeArrayAccess ee obj idx c st =
           (if 0 \<le> i \<and> i < of_nat (length xs)
            then Done (if isInteger i then xs ! nat \<lfloor>i\<rfloor> else VUndefined) st2
            else Thrown ''Array index out of bounds'' st2)"
  using assms by (auto simp: executeArrayAccess_def)

text \<open>
  Claim C4. An array access raises a runtime fault unless the index is an integer in
  \<open>[0, length)\<close>; \<open>-1\<close> and \<open>length\<close> raise an error and a valid position returns the element
  stored there.

  The code at the index \<^verbatim>\<open>1/2\<close>: no fault, the run succeeds with the value \<^verbatim>\<open>undefined\<close>.
  At \<open>-1\<close> and at the length it raises the error, and at 2 it returns the element.
\<close>

theorem fractional_index_is_no_fault:
  "returned (execute 40 ''let a: Array<int> = [10, 20, 30]; a[1/2];'' initialInterp) =
     Some \<lparr>success = True, result = Some VUndefined, error = None, outputLines = [],
            warningLines = [], compileErrors = None\<rparr>
   \<and> returned (execute 40 ''let a: Array<int> = [10, 20, 30]; a[-1];'' initialInterp) =
     Some \<lparr>success = False, result = None, error = Some ''Array index out of bounds'',
            outputLines = [], warningLines = [], compileErrors = None\<rparr>
   \<and> returned (execute 40 ''let a: Array<int> = [10, 20, 30]; a[3];'' initialInterp) =
     Some \<lparr>success = False, result = None, error = Some ''Array index out of bounds'',
            outputLines = [], warningLines = [], compileErrors = None\<rparr>
   \<and> returned (execute 40 ''let a: Array<int> = [10, 20, 30]; a[2];'' initialInterp) =
     Some \<lparr>success = True, result = Some (VNumber 30), error = None, outputLines = [],
            warningLines = [], compileErrors = None\<rparr>"
  by code_simp

subsection \<open>The tokenizer's filter\<close>

lemma tokenize_drops_whitespace_and_line_comments:
  "t \<in> set (tokenize code) \<Longrightarrow> \<not> isWhitespaceToken t \<and> \<not> prefix ''//'' t"
  by (simp add: tokenize_def)

lemma two_character_operators:
  assumes "p \<in> set [''=='', ''!='', ''<='', ''>='', ''&&'', ''||'', ''->'', ''::'']"
  shows "matchToken (p @ rest) = Some 2"
  using assms
  by (auto simp: matchToken_def isSpace_def operatorAlternatives_def)

text \<open>
  Claim C5. The tokenizer strips whitespace, line comments and block comments, so that no
  token of a comment reaches the parser, and reads the two-character operators as single
  tokens.

  The code on a text with a block comment: the regular expression matches the comment as
  one token, the filter drops only whitespace and the matches that start with \<^verbatim>\<open>//\<close>, and
  the parser reports the comment as an unexpected token. Whitespace, a line comment and
  \<^verbatim>\<open><=\<close> are treated as the claim says.
\<close>

theorem block_comment_is_a_token:
  "tokenize ''/* c */ let x: int = 1;'' =
     [''/* c */'', ''let'', ''x'', '':'', ''int'', ''='', ''1'', '';'']
   \<and> returned (execute 40 ''/* c */ let x: int = 1;'' initialInterp) =
     Some \<lparr>success = False, result = None, error = None, outputLines = [], warningLines = [],
            compileErrors = Some [\<lparr>line = 1, column = 0,
              message = ''Unexpected token: /* c */'', severity = ''error''\<rparr>]\<rparr>
   \<and> tokenize ''a <= b // rest'' = [''a'', ''<='', ''b'']"
  by code_simp

subsection \<open>Declarations without initializer\<close>

lemma getFrame_setVariable:
  "a < length (frames st) \<Longrightarrow>
   variables (getFrame (setVariable (Context a parent) x b st) a) =
     AList.update x b (variables (getFrame st a))"
  by (simp add: getFrame_def)

text \<open>
  Claim C6, amended. A variable declaration without initializer installs, in the frame of
  its context, a binding whose value is 0 for the declared type named \<^verbatim>\<open>int\<close>, 0.0 for
  \<^verbatim>\<open>float\<close>, the empty string for \<^verbatim>\<open>string\<close>, \<^verbatim>\<open>false\<close> for \<^verbatim>\<open>bool\<close>, the string of the one
  character with code 0 for \<^verbatim>\<open>char\<close>, and \<^verbatim>\<open>null\<close> for every other declared type.
\<close>

theorem default_value_of_declaration:
  assumes "a < length (frames st)"
  shows "executeVariableDeclaration ee x ty None mut (Context a parent) st =
           Done VUndefined
             (setVariable (Context a parent) x
                \<lparr>varType = ty, varValue = getDefaultValue ty, mutable = mut\<rparr> st)
       \<and> lookupVariable x (Context a parent)
           (setVariable (Context a parent) x
              \<lparr>varType = ty, varValue = getDefaultValue ty, mutable = mut\<rparr> st) =
           Some (a, \<lparr>varType = ty, varValue = getDefaultValue ty, mutable = mut\<rparr>)
       \<and> getDefaultValue ty =
           (if name ty = ''int'' then VNumber 0
            else if name ty = ''float'' then VNumber 0
            else if name ty = ''string'' then VString []
            else if name ty = ''bool'' then VBoolean False
            else if name ty = ''char'' then VString [CHR 0x00]
            else VNull)"
proof (intro conjI)
  show "executeVariableDeclaration ee x ty None mut (Context a parent) st =
           Done VUndefined
             (setVariable (Context a parent) x
                \<lparr>varType = ty, varValue = getDefaultValue ty, mutable = mut\<rparr> st)"
    by (simp add: executeVariableDeclaration_def)
  show "lookupVariable x (Context a parent)
           (setVariable (Context a parent) x
              \<lparr>varType = ty, varValue = getDefaultValue ty, mutable = mut\<rparr> st) =
           Some (a, \<lparr>varType = ty, varValue = getDefaultValue ty, mutable = mut\<rparr>)"
    using assms
    by (simp only: lookupVariable.simps getFrame_setVariable) (simp add: update_conv')
  show "getDefaultValue ty =
           (if name ty = ''int'' then VNumber 0
            else if name ty = ''float'' then VNumber 0
            else if name ty = ''string'' then VString []
            else if name ty = ''bool'' then VBoolean False
            else if name ty = ''char'' then VString [CHR 0x00]
            else VNull)"
    by (simp add: getDefaultValue_def)
qed

theorem default_value_of_declaration_witness:
  "0 < length (frames initialInterp)
   \<and> lookupVariable ''c'' (Context 0 None)
       (setVariable (Context 0 None) ''c''
          \<lparr>varType = TypeInfo ''char'' True False None,
           varValue = getDefaultValue (TypeInfo ''char'' True False None), mutable = True\<rparr>
          initialInterp) =
       Some (0, \<lparr>varType = TypeInfo ''char'' True False None,
                 varValue = getDefaultValue (TypeInfo ''char'' True False None),
                 mutable = True\<rparr>)
   \<and> getDefaultValue (TypeInfo ''char'' True False None) = VString [CHR 0x00]
   \<and> getDefaultValue (TypeInfo ''int'' True False None) = VNumber 0
   \<and> getDefaultValue (TypeInfo ''Array<int>'' False False None) = VNull"
proof -
  have h: "0 < length (frames initialInterp)"
    by (simp add: initialInterp_def)
  have v: "getDefaultValue (TypeInfo ''char'' True False None) = VString [CHR 0x00]"
    "getDefaultValue (TypeInfo ''int'' True False None) = VNumber 0"
    "getDefaultValue (TypeInfo ''Array<int>'' False False None) = VNull"
    by (simp_all add: getDefaultValue_def)
  from default_value_of_declaration
    [OF h, of "\<lambda>e c s. OutOfFuel" "''c''" "TypeInfo ''char'' True False None" True None]
  show ?thesis using h v by blast
qed

text \<open>The claim as it was stated fails at the declared type \<^verbatim>\<open>char\<close>, which is none of
  \<^verbatim>\<open>int\<close>, \<^verbatim>\<open>float\<close>, \<^verbatim>\<open>string\<close>, \<^verbatim>\<open>bool\<close>: the binding that \<^verbatim>\<open>let c: char;\<close> installs holds
  a string, not \<^verbatim>\<open>null\<close>.\<close>

theorem default_value_of_char_is_not_null:
  "name (TypeInfo ''char'' True False None) \<notin> set [''int'', ''float'', ''string'', ''bool'']
   \<and> getDefaultValue (TypeInfo ''char'' True False None) \<noteq> VNull
   \<and> (case execute 40 ''let c: char;'' initialInterp of
        Done r st \<Rightarrow>
          success r \<and>
          map_option (\<lambda>r. varValue (snd r)) (lookupVariable ''c'' globalContext st) =
            Some (VString [CHR 0x00])
      | _ \<Rightarrow> False)"
  by code_simp

subsection \<open>The output buffer only grows\<close>

text \<open>
  Every function of the evaluator grows the output buffer, given that its recursive calls
  do; so do \<open>executeExpression\<close> and \<open>executeStatement\<close> at every fuel.
\<close>

lemma grows_simps [simp]:
  "grows st (Done a st') = prefix (outputBuffer st) (outputBuffer st')"
  "grows st (Thrown e st') = prefix (outputBuffer st) (outputBuffer st')"
  "grows st OutOfFuel"
  "grows st Unmodelled"
  by (simp_all add: grows_def)

lemma grows_liftHost [simp]: "grows st (liftHost r st)"
  by (cases r) (simp_all add: liftHost_def)

lemma grows_trans:
  assumes "prefix (outputBuffer st) (outputBuffer st1)" and "grows st1 m"
  shows "grows st m"
  using assms by (cases m) (auto simp: grows_def intro: prefix_order.trans)

lemma grows_bind:
  assumes "grows st m" and "\<And>a st1. grows st1 (f a st1)"
  shows "grows st (bind m f)"
proof (cases m)
  case (Done a st1)
  with assms(1) have "prefix (outputBuffer st) (outputBuffer st1)" by simp
  then show ?thesis using assms(2) Done by (simp add: grows_trans)
qed (use assms(1) in simp_all)

lemma grows_eeD: "ee_grows ee \<Longrightarrow> grows st (ee e c st)"
  by (simp add: ee_grows_def)

lemma grows_esD: "es_grows es \<Longrightarrow> grows st (es s c st)"
  by (simp add: es_grows_def)

lemma outputBuffer_setVariable [simp]: "outputBuffer (setVariable c x b st) = outputBuffer st"
  by (cases c) simp

lemma outputBuffer_setFunction [simp]: "outputBuffer (setFunction c x f st) = outputBuffer st"
  by (cases c) simp

lemma outputBuffer_assignBinding [simp]: "outputBuffer (assignBinding a x v st) = outputBuffer st"
  by (simp add: assignBinding_def)

lemma grows_executeExpressions:
  "ee_grows ee \<Longrightarrow> grows st (executeExpressions ee es c st)"
  by (induction es arbitrary: st) (auto intro!: grows_bind simp: ee_grows_def)

lemma grows_executeProperties:
  "ee_grows ee \<Longrightarrow> grows st (executeProperties ee ps obj c st)"
  by (induction ps arbitrary: st obj) (auto intro!: grows_bind simp: ee_grows_def)

lemma grows_executeBinaryExpression:
  "ee_grows ee \<Longrightarrow> grows st (executeBinaryExpression ee operator l r c st)"
  unfolding executeBinaryExpression_def by (auto intro!: grows_bind simp: ee_grows_def)

lemma grows_executeUnaryExpression:
  "ee_grows ee \<Longrightarrow> grows st (executeUnaryExpression ee operator e c st)"
  unfolding executeUnaryExpression_def by (auto intro!: grows_bind simp: ee_grows_def)

lemma grows_resolveVariableReference [simp]: "grows st (resolveVariableReference x c st)"
  by (simp add: resolveVariableReference_def split: option.split)

lemma grows_resolveVariable [simp]: "grows st (resolveVariable x c st)"
  by (simp add: resolveVariable_def split: option.split)

lemma grows_executeAssignmentExpression:
  "ee_grows ee \<Longrightarrow> grows st (executeAssignmentExpression ee l r c st)"
  unfolding executeAssignmentExpression_def
  by (auto intro!: grows_bind simp: ee_grows_def split: expr.split)

text \<open>\<^verbatim>\<open>print\<close> and \<^verbatim>\<open>println\<close> append one line; no other builtin touches the buffer.\<close>

lemma grows_callBuiltin: "grows st (callBuiltin f args st)"
  by (auto simp: callBuiltin_def split: option.split val.split)

lemma grows_bindParameters:
  "ee_grows ee \<Longrightarrow> grows st (bindParameters ee ps args i c fc st)"
proof (induction ps arbitrary: st i)
  case Nil
  show ?case by simp
next
  case (Cons p ps)
  have "grows st1 (bindParameters ee ps args (Suc i) c fc (setVariable fc x b st1))" for st1 x b
    by (rule grows_trans [OF _ Cons.IH [OF Cons.prems]]) simp
  then show ?case
    using Cons.prems by (auto intro!: grows_bind simp: ee_grows_def split: option.split)
qed

lemma grows_executeUserFunction:
  "ee_grows ee \<Longrightarrow> es_grows es \<Longrightarrow> grows st (executeUserFunction ee es ps body args c st)"
  unfolding executeUserFunction_def newContext_def
  by (auto intro!: grows_bind grows_trans [OF _ grows_bindParameters] simp: es_grows_def)

lemma grows_executeFunctionCall:
  "ee_grows ee \<Longrightarrow> es_grows es \<Longrightarrow> grows st (executeFunctionCall ee es callee args c st)"
  unfolding executeFunctionCall_def
  by (auto intro!: grows_bind grows_executeExpressions grows_callBuiltin
      grows_executeUserFunction split: expr.split option.split funcdef.split)

lemma grows_executeArrayAccess:
  "ee_grows ee \<Longrightarrow> grows st (executeArrayAccess ee obj idx c st)"
  unfolding executeArrayAccess_def
  by (auto intro!: grows_bind simp: ee_grows_def split: val.split)

lemma grows_executePropertyAccess:
  "ee_grows ee \<Longrightarrow> grows st (executePropertyAccess ee obj p c st)"
  unfolding executePropertyAccess_def
  by (auto intro!: grows_bind simp: ee_grows_def)

lemma grows_executeVariableDeclaration:
  "ee_grows ee \<Longrightarrow> grows st (executeVariableDeclaration ee x ty init mut c st)"
  unfolding executeVariableDeclaration_def
  by (auto intro!: grows_bind simp: ee_grows_def split: option.split)

lemma grows_executeStatements:
  "es_grows es \<Longrightarrow> grows st (executeStatements es ss r c st)"
  by (induction ss arbitrary: st r) (auto intro!: grows_bind simp: es_grows_def)

lemma grows_executeBlockStatement:
  "es_grows es \<Longrightarrow> grows st (executeBlockStatement es body c st)"
  unfolding executeBlockStatement_def newContext_def
  by (auto intro!: grows_trans [OF _ grows_executeStatements])

lemma grows_executeIfStatement:
  "ee_grows ee \<Longrightarrow> es_grows es \<Longrightarrow> grows st (executeIfStatement ee es cond s1 s2 c st)"
  unfolding executeIfStatement_def
  by (auto intro!: grows_bind simp: ee_grows_def es_grows_def split: option.split)

lemma grows_executeForStatement_loop:
  "ee_grows ee \<Longrightarrow> es_grows es \<Longrightarrow>
   grows st (executeForStatement_loop ee es n cond update body r c st)"
  by (induction n arbitrary: st r) (auto intro!: grows_bind simp: ee_grows_def es_grows_def)

lemma grows_executeForStatement:
  "ee_grows ee \<Longrightarrow> es_grows es \<Longrightarrow>
   grows st (executeForStatement ee es n init cond update body c st)"
  unfolding executeForStatement_def newContext_def
  by (auto intro!: grows_bind grows_executeForStatement_loop
      grows_trans [OF _ grows_esD [of es]])

lemma grows_executeWhileStatement_loop:
  "ee_grows ee \<Longrightarrow> es_grows es \<Longrightarrow>
   grows st (executeWhileStatement_loop ee es n cond body r c st)"
  by (induction n arbitrary: st r) (auto intro!: grows_bind simp: ee_grows_def es_grows_def)

lemma grows_executeReturnStatement:
  "ee_grows ee \<Longrightarrow> grows st (executeReturnStatement ee v c st)"
  unfolding executeReturnStatement_def
  by (auto simp: ee_grows_def split: option.split)

lemma grows_execute:
  "ee_grows (\<lambda>e c st. executeExpression n e c st) \<and> es_grows (\<lambda>s c st. executeStatement n s c st)"
proof (induction n)
  case 0
  show ?case by (simp add: ee_grows_def es_grows_def)
next
  case (Suc n)
  then have ee: "ee_grows (\<lambda>e c st. executeExpression n e c st)"
    and es: "es_grows (\<lambda>s c st. executeStatement n s c st)"
    by simp_all
  have "grows st (executeExpression (Suc n) e c st)" for e c st
  proof (cases e)
    case (ArrayLiteral xs)
    have "grows st (executeExpressions (\<lambda>e c st. executeExpression n e c st) xs c st)"
      by (rule grows_executeExpressions [OF ee])
    then show ?thesis using ArrayLiteral by (auto intro!: grows_bind)
  next
    case (ObjectLiteral ps)
    have "grows st (executeProperties (\<lambda>e c st. executeExpression n e c st) ps [] c st)"
      by (rule grows_executeProperties [OF ee])
    then show ?thesis using ObjectLiteral by (auto intro!: grows_bind)
  qed (simp_all add: grows_executeBinaryExpression [OF ee] grows_executeUnaryExpression [OF ee]
        grows_executeAssignmentExpression [OF ee] grows_executeFunctionCall [OF ee es]
        grows_executeArrayAccess [OF ee] grows_executePropertyAccess [OF ee])
  moreover have "grows st (executeStatement (Suc n) s c st)" for s c st
    by (cases s)
       (simp_all add: grows_executeVariableDeclaration [OF ee] executeFunctionDeclaration_def
         grows_executeBlockStatement [OF es] grows_executeIfStatement [OF ee es]
         grows_executeForStatement [OF ee es] executeWhileStatement_def
         grows_executeWhileStatement_loop [OF ee es] grows_executeReturnStatement [OF ee]
         grows_eeD [OF ee])
  ultimately show ?case
    by (simp add: ee_grows_def es_grows_def)
qed

subsection \<open>A run that ends with a runtime error\<close>

text \<open>
  Claim C7. When the evaluation aborts with a runtime error, \<^verbatim>\<open>execute\<close> returns a result
  with \<open>success = False\<close> and the one error message, and its output is the output buffer
  at the fault: it starts with every line that the statements run before the fault had
  buffered, in their order, a call of \<^verbatim>\<open>print\<close> or \<^verbatim>\<open>println\<close> adding its line at the end of
  the buffer.
\<close>

theorem execute_runtime_error:
  assumes "parse n code = Done (Program body, []) p"
    and "typeCheck (st\<lparr>outputBuffer := [], warningsBuffer := []\<rparr>) (Program body) = []"
    and "executeAST n (Program body) globalContext (st\<lparr>outputBuffer := [], warningsBuffer := []\<rparr>)
           = Thrown msg st'"
  shows "execute n code st =
           Done \<lparr>success = False, result = None, error = Some msg,
                 outputLines = outputBuffer st', warningLines = warningsBuffer st',
                 compileErrors = None\<rparr> st'
       \<and> (\<forall>pre rest r st1.
             body = pre @ rest \<and>
             executeStatements (\<lambda>s c t. executeStatement n s c t) pre VNull globalContext
               (st\<lparr>outputBuffer := [], warningsBuffer := []\<rparr>) = Done r st1
             \<longrightarrow> prefix (outputBuffer st1) (outputBuffer st'))
       \<and> callBuiltin ''print'' [VString lineText] s0 =
           Done VUndefined (s0\<lparr>outputBuffer := outputBuffer s0 @ [lineText]\<rparr>)
       \<and> callBuiltin ''println'' [VString lineText] s0 =
           Done VUndefined (s0\<lparr>outputBuffer := outputBuffer s0 @ [lineText]\<rparr>)"
proof (intro conjI allI impI)
  show "execute n code st =
           Done \<lparr>success = False, result = None, error = Some msg,
                 outputLines = outputBuffer st', warningLines = warningsBuffer st',
                 compileErrors = None\<rparr> st'"
    using assms by (simp add: execute_def)
  show "prefix (outputBuffer st1) (outputBuffer st')"
    if h: "body = pre @ rest \<and>
        executeStatements (\<lambda>s c t. executeStatement n s c t) pre VNull globalContext
          (st\<lparr>outputBuffer := [], warningsBuffer := []\<rparr>) = Done r st1"
    for pre rest r st1
  proof -
    have "executeStatements (\<lambda>s c t. executeStatement n s c t) rest r globalContext st1
            = Thrown msg st'"
      using assms(3) h by (simp add: executeStatements_append)
    moreover have "grows st1
        (executeStatements (\<lambda>s c t. executeStatement n s c t) rest r globalContext st1)"
      using grows_execute [of n] by (simp add: grows_executeStatements)
    ultimately show ?thesis by simp
  qed
  show "callBuiltin ''print'' [VString lineText] s0 =
           Done VUndefined (s0\<lparr>outputBuffer := outputBuffer s0 @ [lineText]\<rparr>)"
    by (simp add: callBuiltin_def)
  show "callBuiltin ''println'' [VString lineText] s0 =
           Done VUndefined (s0\<lparr>outputBuffer := outputBuffer s0 @ [lineText]\<rparr>)"
    by (simp add: callBuiltin_def)
qed

text \<open>The program \<^verbatim>\<open>print('a', 1, true); x;\<close>: the line is printed, then \<^verbatim>\<open>x\<close> is undefined.\<close>

theorem execute_runtime_error_witness:
  "\<exists>body p st'.
     parse 40 ''print('a', 1, true); x;'' = Done (Program body, []) p
   \<and> typeCheck (initialInterp\<lparr>outputBuffer := [], warningsBuffer := []\<rparr>) (Program body) = []
   \<and> executeAST 40 (Program body) globalContext
        (initialInterp\<lparr>outputBuffer := [], warningsBuffer := []\<rparr>)
        = Thrown ''Undefined variable: x'' st'
   \<and> execute 40 ''print('a', 1, true); x;'' initialInterp =
        Done \<lparr>success = False, result = None, error = Some ''Undefined variable: x'',
              outputLines = [''a 1 true''], warningLines = [], compileErrors = None\<rparr> st'"
proof -
  define body where "body =
    [ExpressionStatement
       (FunctionCall (Identifier ''print'')
          [StringLiteral ''a'', NumberLiteral 1 ''int'', BooleanLiteral True]),
     ExpressionStatement (Identifier ''x'')]"
  define st' where "st' = initialInterp\<lparr>outputBuffer := [''a 1 true'']\<rparr>"
  have h1: "parse 40 ''print('a', 1, true); x;'' = Done (Program body, []) 13"
    unfolding body_def by code_simp
  have h2: "typeCheck (initialInterp\<lparr>outputBuffer := [], warningsBuffer := []\<rparr>) (Program body) = []"
    unfolding body_def by code_simp
  have h3: "executeAST 40 (Program body) globalContext
        (initialInterp\<lparr>outputBuffer := [], warningsBuffer := []\<rparr>)
        = Thrown ''Undefined variable: x'' st'"
    unfolding body_def st'_def by code_simp
  have "outputBuffer st' = [''a 1 true'']" "warningsBuffer st' = []"
    by (simp_all add: st'_def initialInterp_def)
  with execute_runtime_error [OF h1 h2 h3] h1 h2 h3 show ?thesis
    by auto
qed

subsection \<open>Functions and return\<close>

text \<open>
  Claim C8. The recursive function \<^verbatim>\<open>factorial\<close> whose body returns 1 when \<^verbatim>\<open>n <= 1\<close> and
  otherwise returns \<^verbatim>\<open>n * factorial(n - 1)\<close>, written with \<^verbatim>\<open>if\<close> and \<^verbatim>\<open>else\<close> as the syntax
  guide of the repository writes it, evaluates to 120 when called as \<^verbatim>\<open>factorial(5)\<close>.
\<close>

theorem factorial_5:
  "returned (execute 60 ''func factorial(n: int) -> int { if (n <= 1) { return 1; } else { return n * factorial(n - 1); } } factorial(5);'' initialInterp) =
     Some \<lparr>success = True, result = Some (VNumber 120), error = None, outputLines = [],
            warningLines = [], compileErrors = None\<rparr>"
  by code_simp

text \<open>With the same fuel the variant without \<^verbatim>\<open>else\<close>, whose second \<^verbatim>\<open>return\<close> follows the
  \<^verbatim>\<open>if\<close>, has not returned: the statement after the \<^verbatim>\<open>if\<close> runs for every \<^verbatim>\<open>n\<close>.\<close>

lemma factorial_without_else:
  "execute 60 ''func factorial(n: int) -> int { if (n <= 1) { return 1; } return n * factorial(n - 1); } factorial(5);'' initialInterp = OutOfFuel"
  by code_simp

text \<open>
  Claim C9. A return statement does not leave the function body: it yields the value of
  its expression (or \<^verbatim>\<open>null\<close>), the statements after it in the block still run, and a
  call of a user-defined function returns the value of the last statement run in the
  body, not that of the first return.
\<close>

theorem return_does_not_leave_the_body:
  "executeReturnStatement ee (Some e) c st = ee e c st
   \<and> executeReturnStatement ee None c st = Done VNull st
   \<and> executeStatement (Suc n) (ReturnStatement (Some e)) c st = executeExpression n e c st
   \<and> executeStatements es (ReturnStatement v # rest) r c st =
       bind (es (ReturnStatement v) c st) (\<lambda>r1 st1. executeStatements es rest r1 c st1)
   \<and> executeStatements es (ss @ [s]) r c st =
       bind (executeStatements es ss r c st) (\<lambda>r1 st1. es s c st1)
   \<and> returned (execute 40 ''func f() -> int { return 1; print(7); return 2; } f();'' initialInterp) =
       Some \<lparr>success = True, result = Some (VNumber 2), error = None, outputLines = [''7''],
              warningLines = [], compileErrors = None\<rparr>"
proof (intro conjI)
  show "executeStatements es (ss @ [s]) r c st =
       bind (executeStatements es ss r c st) (\<lambda>r1 st1. es s c st1)"
    by (rule executeStatements_snoc)
  show "returned (execute 40 ''func f() -> int { return 1; print(7); return 2; } f();'' initialInterp) =
       Some \<lparr>success = True, result = Some (VNumber 2), error = None, outputLines = [''7''],
              warningLines = [], compileErrors = None\<rparr>"
    by code_simp
qed (simp_all add: executeReturnStatement_def)

subsection \<open>Assignment to a target that is no identifier\<close>

text \<open>
  Claim C10. An assignment whose left side is not a plain identifier evaluates the right
  side and does nothing else: it raises no error of its own, leaves the state (every
  frame, array and object) as the evaluation of the right side left it, and returns the
  value of the right side. The left side is not evaluated.
\<close>

theorem assignment_to_non_identifier:
  assumes "\<forall>x. l \<noteq> Identifier x"
  shows "executeAssignmentExpression ee l r c st = ee r c st
     \<and> executeExpression (Suc n) (AssignmentExpression l r) c st = executeExpression n r c st"
proof -
  have *: "(case l of Identifier x \<Rightarrow> f x | _ \<Rightarrow> g) = g"
    for f :: "string \<Rightarrow> (val, interp) outcome" and g
    using assms by (cases l) auto
  have "executeAssignmentExpression ee' l r c st = ee' r c st" for ee'
    unfolding executeAssignmentExpression_def by (simp add: * bind_return)
  then show ?thesis
    by simp
qed

text \<open>The target \<^verbatim>\<open>a[0]\<close> with no variable \<^verbatim>\<open>a\<close> at all, and the program
  \<^verbatim>\<open>let a: Array<int> = [1]; a[0] = 5; a[0];\<close>, whose last statement still reads 1.\<close>

theorem assignment_to_non_identifier_witness:
  "(\<forall>x. ArrayAccess (Identifier ''a'') (NumberLiteral 0 ''int'') \<noteq> Identifier x)
   \<and> executeExpression (Suc (Suc 0))
        (AssignmentExpression (ArrayAccess (Identifier ''a'') (NumberLiteral 0 ''int''))
           (NumberLiteral 5 ''int'')) globalContext initialInterp
       = Done (VNumber 5) initialInterp
   \<and> returned (execute 40 ''let a: Array<int> = [1]; a[0] = 5; a[0];'' initialInterp) =
       Some \<lparr>success = True, result = Some (VNumber 1), error = None, outputLines = [],
              warningLines = [], compileErrors = None\<rparr>"
proof -
  have h: "\<forall>x. ArrayAccess (Identifier ''a'') (NumberLiteral 0 ''int'') \<noteq> Identifier x"
    by simp
  have e: "returned (execute 40 ''let a: Array<int> = [1]; a[0] = 5; a[0];'' initialInterp) =
       Some \<lparr>success = True, result = Some (VNumber 1), error = None, outputLines = [],
              warningLines = [], compileErrors = None\<rparr>"
    by code_simp
  from assignment_to_non_identifier [OF h, of "\<lambda>e c s. OutOfFuel" "NumberLiteral 5 ''int''"
      globalContext initialInterp "Suc 0"]
  show ?thesis using h e by simp
qed

end
